theory Spec2Isabelle
  imports Main
begin

section \<open>Data model (api/models.py)\<close>

text \<open>
  The rows of the tables the live-match consumers touch. Primary keys and foreign keys are
  natural numbers; a nullable column is an \<open>option\<close>. The many-to-many field
  \<open>Frame.events\<close> is its through table: a list of (frame id, event id) rows.
\<close>

record ball =
  ball_id :: string
  color :: string
  full :: "bool option"

text \<open>The module-level list \<open>balls\<close> (the display names are left out).\<close>

definition balls :: "ball list" where
  "balls =
    [\<lparr>ball_id = ''cue'', color = ''white'', full = None\<rparr>,
     \<lparr>ball_id = ''1'', color = ''yellow'', full = Some True\<rparr>,
     \<lparr>ball_id = ''2'', color = ''blue'', full = Some True\<rparr>,
     \<lparr>ball_id = ''3'', color = ''red'', full = Some True\<rparr>,
     \<lparr>ball_id = ''4'', color = ''purple'', full = Some True\<rparr>,
     \<lparr>ball_id = ''5'', color = ''orange'', full = Some True\<rparr>,
     \<lparr>ball_id = ''6'', color = ''green'', full = Some True\<rparr>,
     \<lparr>ball_id = ''7'', color = ''maroon'', full = Some True\<rparr>,
     \<lparr>ball_id = ''8'', color = ''black'', full = Some True\<rparr>,
     \<lparr>ball_id = ''9'', color = ''yellow'', full = Some False\<rparr>,
     \<lparr>ball_id = ''10'', color = ''blue'', full = Some False\<rparr>,
     \<lparr>ball_id = ''11'', color = ''red'', full = Some False\<rparr>,
     \<lparr>ball_id = ''12'', color = ''purple'', full = Some False\<rparr>,
     \<lparr>ball_id = ''13'', color = ''orange'', full = Some False\<rparr>,
     \<lparr>ball_id = ''14'', color = ''green'', full = Some False\<rparr>,
     \<lparr>ball_id = ''15'', color = ''maroon'', full = Some False\<rparr>]"

record profile =
  p_id :: nat
  user :: "nat option"
  is_biro :: bool

abbreviation FRAME_START :: string where "FRAME_START \<equiv> ''start''"
abbreviation FRAME_END :: string where "FRAME_END \<equiv> ''end''"
abbreviation NEXT_PLAYER :: string where "NEXT_PLAYER \<equiv> ''next_player''"
abbreviation SCORE_UPDATE :: string where "SCORE_UPDATE \<equiv> ''score_update''"
abbreviation BALLS_POTTED :: string where "BALLS_POTTED \<equiv> ''balls_potted''"
abbreviation FAUL :: string where "FAUL \<equiv> ''faul''"
abbreviation FAUL_AND_NEXT_PLAYER :: string where "FAUL_AND_NEXT_PLAYER \<equiv> ''faul_and_next_player''"
abbreviation CUE_BALL_LEFT_TABLE :: string where "CUE_BALL_LEFT_TABLE \<equiv> ''cue_ball_left_table''"
abbreviation CUE_BALL_GETS_POSITIONED :: string where
  "CUE_BALL_GETS_POSITIONED \<equiv> ''cue_ball_gets_positioned''"

record match_event =
  e_id :: nat
  eventType :: string
  timestamp :: nat
  details :: "string option"
  turn_number :: "nat option"
  player :: "nat option"
  ball_ids :: "string list option"

abbreviation BALL_GROUP_FULL :: string where "BALL_GROUP_FULL \<equiv> ''full''"
abbreviation BALL_GROUP_STRIPED :: string where "BALL_GROUP_STRIPED \<equiv> ''striped''"

record frame =
  f_id :: nat
  match_id :: nat
  frame_number :: nat
  winner :: "nat option"
  player1_ball_group :: "string option"
  player2_ball_group :: "string option"

record match =
  m_id :: nat
  player1 :: nat
  player2 :: nat
  match_date :: "string option"
  frames_to_win :: nat

text \<open>
  The database: one list of rows per table, in insertion order, the through table of
  \<open>Frame.events\<close>, and the next value of the two auto-increment keys the consumers use.
\<close>

record database =
  users :: "nat list"
  profiles :: "profile list"
  matches :: "match list"
  frames :: "frame list"
  match_events :: "match_event list"
  frame_events :: "(nat \<times> nat) list"
  next_event_id :: nat
  next_frame_id :: nat

section \<open>Queries\<close>

text \<open>
  \<open>frame.events.all().order_by('timestamp')\<close>: the events joined to the frame through
  the through table, sorted by timestamp. The sort is stable over the table order, which
  fixes the order of equal timestamps (the database leaves it open).
\<close>

definition events_of :: "database \<Rightarrow> nat \<Rightarrow> match_event list" where
  "events_of db fid = filter (\<lambda>e. (fid, e_id e) \<in> set (frame_events db)) (match_events db)"

definition events_by_timestamp :: "database \<Rightarrow> nat \<Rightarrow> match_event list" where
  "events_by_timestamp db fid = sort_key timestamp (events_of db fid)"

section \<open>Projections (Frame.get_balls_on_table, Frame.return_events_as_turns)\<close>

text \<open>
  A Python dict keeps insertion order: assigning to an existing key keeps the key's place,
  assigning to a new key appends it.
\<close>

fun dict_set :: "('k \<times> 'v) list \<Rightarrow> 'k \<Rightarrow> 'v \<Rightarrow> ('k \<times> 'v) list" where
  "dict_set [] k v = [(k, v)]"
| "dict_set ((k', v') # kvs) k v =
     (if k' = k then (k, v) # kvs else (k', v') # dict_set kvs k v)"

text \<open>Python truthiness of the JSON column \<open>ball_ids\<close>: null and the empty list are false.\<close>

fun truthy_list :: "'a list option \<Rightarrow> bool" where
  "truthy_list None = False"
| "truthy_list (Some xs) = (xs \<noteq> [])"

definition initial_balls_on_table :: "(string \<times> bool) list" where
  "initial_balls_on_table = map (\<lambda>b. (ball_id b, True)) (filter (\<lambda>b. ball_id b \<noteq> ''cue'') balls)"

text \<open>The inner loop: \<open>for ball_id in event.ball_ids: balls_on_table[ball_id] = False\<close>.\<close>

fun pot :: "(string \<times> bool) list \<Rightarrow> string list \<Rightarrow> (string \<times> bool) list" where
  "pot balls_on_table [] = balls_on_table"
| "pot balls_on_table (b # bs) = pot (dict_set balls_on_table b False) bs"

text \<open>The outer loop over the events.\<close>

fun process_events :: "(string \<times> bool) list \<Rightarrow> match_event list \<Rightarrow> (string \<times> bool) list" where
  "process_events balls_on_table [] = balls_on_table"
| "process_events balls_on_table (event # rest) =
     (if eventType event = BALLS_POTTED \<and> truthy_list (ball_ids event)
      then process_events (pot balls_on_table (the (ball_ids event))) rest
      else process_events balls_on_table rest)"

definition balls_on_table_of :: "match_event list \<Rightarrow> string list" where
  "balls_on_table_of es = map fst (filter snd (process_events initial_balls_on_table es))"

definition get_balls_on_table :: "database \<Rightarrow> nat \<Rightarrow> string list" where
  "get_balls_on_table db fid = balls_on_table_of (events_by_timestamp db fid)"

text \<open>
  The loop of \<open>return_events_as_turns\<close> with its two variables, and the final
  \<open>if current_turn: turns.append(current_turn)\<close>.
\<close>

fun turns_loop ::
  "match_event list list \<Rightarrow> match_event list \<Rightarrow> match_event list \<Rightarrow> match_event list list" where
  "turns_loop turns current_turn [] =
     (if current_turn \<noteq> [] then turns @ [current_turn] else turns)"
| "turns_loop turns current_turn (event # rest) =
     (if eventType event = NEXT_PLAYER \<and> current_turn \<noteq> []
      then turns_loop (turns @ [current_turn]) [event] rest
      else turns_loop turns (current_turn @ [event]) rest)"

definition events_as_turns :: "match_event list \<Rightarrow> match_event list list" where
  "events_as_turns es = turns_loop [] [] es"

definition return_events_as_turns :: "database \<Rightarrow> nat \<Rightarrow> match_event list list" where
  "return_events_as_turns db fid = events_as_turns (events_by_timestamp db fid)"

text \<open>The ball ids named by the \<open>balls_potted\<close> events of a sequence, in order.\<close>

fun potted_ids :: "match_event list \<Rightarrow> string list" where
  "potted_ids [] = []"
| "potted_ids (e # es) =
     (if eventType e = BALLS_POTTED
      then (case ball_ids e of None \<Rightarrow> [] | Some ids \<Rightarrow> ids) @ potted_ids es
      else potted_ids es)"

text \<open>What a run of a turn segmentation has to look like.\<close>

definition run_ok :: "bool \<Rightarrow> match_event list \<Rightarrow> bool" where
  "run_ok is_first run \<longleftrightarrow>
     run \<noteq> [] \<and> list_all (\<lambda>e. eventType e \<noteq> NEXT_PLAYER) (tl run) \<and>
     (is_first \<or> eventType (hd run) = NEXT_PLAYER)"

fun runs_ok :: "bool \<Rightarrow> match_event list list \<Rightarrow> bool" where
  "runs_ok is_first [] = True"
| "runs_ok is_first (run # runs) = (run_ok is_first run \<and> runs_ok False runs)"

section \<open>JSON objects and Python truthiness\<close>

text \<open>
  A key of an inbound JSON object is absent, present with \<open>null\<close>, or present with a value
  of the expected type. \<open>dict_get\<close> is \<open>d.get(k)\<close>, \<open>dict_get_default\<close> is
  \<open>d.get(k, default)\<close>, \<open>has_key\<close> is \<open>k in d\<close>.
\<close>

datatype 'a field = Absent | Null | Val 'a

fun dict_get :: "'a field \<Rightarrow> 'a option" where
  "dict_get Absent = None"
| "dict_get Null = None"
| "dict_get (Val v) = Some v"

fun dict_get_default :: "'a field \<Rightarrow> 'a \<Rightarrow> 'a option" where
  "dict_get_default Absent d = Some d"
| "dict_get_default Null d = None"
| "dict_get_default (Val v) d = Some v"

fun has_key :: "'a field \<Rightarrow> bool" where
  "has_key Absent = False"
| "has_key Null = True"
| "has_key (Val v) = True"

text \<open>\<open>if x:\<close> for an id (None and 0 are false) and for a string (None and '' are false).\<close>

fun truthy_id :: "nat option \<Rightarrow> bool" where
  "truthy_id None = False"
| "truthy_id (Some n) = (n \<noteq> 0)"

fun truthy_str :: "string option \<Rightarrow> bool" where
  "truthy_str None = False"
| "truthy_str (Some s) = (s \<noteq> [])"

section \<open>The object-relational layer\<close>

text \<open>\<open>Model.objects.get(...)\<close>: the row, or None for \<open>DoesNotExist\<close>.\<close>

definition Match_get :: "database \<Rightarrow> nat \<Rightarrow> match option" where
  "Match_get db mid = find (\<lambda>m. m_id m = mid) (matches db)"

definition Frame_get :: "database \<Rightarrow> nat option \<Rightarrow> frame option" where
  "Frame_get db frame_id = find (\<lambda>f. Some (f_id f) = frame_id) (frames db)"

definition Frame_get_in_match :: "database \<Rightarrow> nat option \<Rightarrow> nat \<Rightarrow> frame option" where
  "Frame_get_in_match db frame_id mid =
     find (\<lambda>f. Some (f_id f) = frame_id \<and> match_id f = mid) (frames db)"

definition MatchEvent_get :: "database \<Rightarrow> nat option \<Rightarrow> match_event option" where
  "MatchEvent_get db event_id = find (\<lambda>e. Some (e_id e) = event_id) (match_events db)"

definition Profile_get_by_user :: "database \<Rightarrow> nat \<Rightarrow> profile option" where
  "Profile_get_by_user db uid = find (\<lambda>p. user p = Some uid) (profiles db)"

definition profile_exists :: "database \<Rightarrow> nat \<Rightarrow> bool" where
  "profile_exists db pid = list_ex (\<lambda>p. p_id p = pid) (profiles db)"

text \<open>
  \<open>MatchEvent.objects.create(...)\<close>: the store refuses a row without an event type
  (the column is not nullable) and a player that is no profile (foreign key); otherwise the
  row gets the next key and the current time as its timestamp.
\<close>

definition MatchEvent_create ::
  "database \<Rightarrow> nat \<Rightarrow> string option \<Rightarrow> string option \<Rightarrow> nat option \<Rightarrow> nat option \<Rightarrow>
   string list option \<Rightarrow> (match_event \<times> database) option" where
  "MatchEvent_create db now ty det turn pl ids =
     (case ty of
        None \<Rightarrow> None
      | Some t \<Rightarrow>
          if (case pl of None \<Rightarrow> False | Some pid \<Rightarrow> \<not> profile_exists db pid) then None
          else
            let event = \<lparr>e_id = next_event_id db, eventType = t, timestamp = now, details = det,
                         turn_number = turn, player = pl, ball_ids = ids\<rparr>
            in Some (event, db\<lparr>match_events := match_events db @ [event],
                               next_event_id := Suc (next_event_id db)\<rparr>))"

text \<open>\<open>event.delete()\<close>: the row goes, and with it its rows of the through table.\<close>

definition MatchEvent_delete :: "database \<Rightarrow> nat \<Rightarrow> database" where
  "MatchEvent_delete db eid =
     db\<lparr>match_events := filter (\<lambda>e. e_id e \<noteq> eid) (match_events db),
        frame_events := filter (\<lambda>fe. snd fe \<noteq> eid) (frame_events db)\<rparr>"

text \<open>\<open>frame.events.add(event)\<close> and \<open>frame.events.remove(event)\<close>.\<close>

definition events_add :: "database \<Rightarrow> nat \<Rightarrow> nat \<Rightarrow> database" where
  "events_add db fid eid =
     (if (fid, eid) \<in> set (frame_events db) then db
      else db\<lparr>frame_events := frame_events db @ [(fid, eid)]\<rparr>)"

definition events_remove :: "database \<Rightarrow> nat \<Rightarrow> nat \<Rightarrow> database" where
  "events_remove db fid eid = db\<lparr>frame_events := filter (\<lambda>fe. fe \<noteq> (fid, eid)) (frame_events db)\<rparr>"

text \<open>\<open>frame.save()\<close> and \<open>match.save()\<close>: the row with that key is overwritten.\<close>

definition Frame_save :: "database \<Rightarrow> frame \<Rightarrow> database" where
  "Frame_save db frame = db\<lparr>frames := map (\<lambda>f. if f_id f = f_id frame then frame else f) (frames db)\<rparr>"

definition Match_save :: "database \<Rightarrow> match \<Rightarrow> database" where
  "Match_save db m = db\<lparr>matches := map (\<lambda>x. if m_id x = m_id m then m else x) (matches db)\<rparr>"

text \<open>\<open>match.match_frames\<close> and \<open>match.match_frames.filter(winner=p).count()\<close>.\<close>

definition match_frames :: "database \<Rightarrow> match \<Rightarrow> frame list" where
  "match_frames db m = filter (\<lambda>f. match_id f = m_id m) (frames db)"

definition wins :: "database \<Rightarrow> match \<Rightarrow> nat \<Rightarrow> nat" where
  "wins db m pid = length (filter (\<lambda>f. winner f = Some pid) (match_frames db m))"

text \<open>\<open>frame.events.order_by('-timestamp').first()\<close>.\<close>

definition last_event_of :: "database \<Rightarrow> nat \<Rightarrow> match_event option" where
  "last_event_of db fid =
     (case sort_key (\<lambda>e. - int (timestamp e)) (events_of db fid) of
        [] \<Rightarrow> None
      | e # _ \<Rightarrow> Some e)"

section \<open>The scorekeeper's commands (BiroMatchAdminConsumer)\<close>

record event_data =
  ed_eventType :: "string field"
  ed_details :: "string field"
  ed_turn_number :: "nat field"
  ed_player_id :: "nat field"
  ed_ball_ids :: "string list field"
  ed_frame_id :: "nat field"

text \<open>
  \<open>create_match_event\<close>. The argument is None when \<open>event_data\<close> is not an object: the
  first \<open>.get\<close> raises and the handler's \<open>except Exception\<close> returns None. The event is
  created before the frame is looked up, and nothing undoes it when the lookup fails.
\<close>

definition create_match_event ::
  "database \<Rightarrow> nat \<Rightarrow> event_data option \<Rightarrow> match_event option \<times> database" where
  "create_match_event db now event_data_opt =
     (case event_data_opt of
        None \<Rightarrow> (None, db)
      | Some event_data \<Rightarrow>
          (case MatchEvent_create db now
                  (dict_get (ed_eventType event_data))
                  (dict_get_default (ed_details event_data) [])
                  (dict_get (ed_turn_number event_data))
                  (dict_get (ed_player_id event_data))
                  (dict_get_default (ed_ball_ids event_data) []) of
             None \<Rightarrow> (None, db)
           | Some (event, db1) \<Rightarrow>
               let frame_id = dict_get (ed_frame_id event_data) in
               if truthy_id frame_id then
                 (case Frame_get db1 frame_id of
                    None \<Rightarrow> (None, db1)
                  | Some frame \<Rightarrow> (Some event, events_add db1 (f_id frame) (e_id event)))
               else (Some event, db1)))"

text \<open>The two checks of \<open>create_frame\<close> that decide whether a frame may be started.\<close>

datatype gate = Allow | Already_won | Ended_in_draw

definition best_of_n_gate :: "nat \<Rightarrow> nat \<Rightarrow> nat \<Rightarrow> gate" where
  "best_of_n_gate player1_wins player2_wins total_frames =
     (let frames_needed_to_win = (total_frames + 1) div 2 in
      if player1_wins \<ge> frames_needed_to_win \<or> player2_wins \<ge> frames_needed_to_win
      then Already_won
      else if total_frames mod 2 = 0 \<and> player1_wins + player2_wins \<ge> total_frames
      then Ended_in_draw
      else Allow)"

record frame_data =
  fd_frame_number :: "nat field"

text \<open>
  \<open>create_frame\<close>. Both denials return None. \<open>frame_data\<close> is read only once the gate
  has let the command through; a frame number that is absent defaults to the number of the
  match's frames plus one, one that is null is refused by the store.
\<close>

definition create_frame ::
  "database \<Rightarrow> nat \<Rightarrow> frame_data option \<Rightarrow> frame option \<times> database" where
  "create_frame db mid frame_data_opt =
     (case Match_get db mid of
        None \<Rightarrow> (None, db)
      | Some m \<Rightarrow>
          (case best_of_n_gate (wins db m (player1 m)) (wins db m (player2 m)) (frames_to_win m) of
             Already_won \<Rightarrow> (None, db)
           | Ended_in_draw \<Rightarrow> (None, db)
           | Allow \<Rightarrow>
               (case frame_data_opt of
                  None \<Rightarrow> (None, db)
                | Some frame_data \<Rightarrow>
                    (case dict_get_default (fd_frame_number frame_data)
                            (length (match_frames db m) + 1) of
                       None \<Rightarrow> (None, db)
                     | Some n \<Rightarrow>
                         let frame = \<lparr>f_id = next_frame_id db, match_id = m_id m,
                                      frame_number = n, winner = None,
                                      player1_ball_group = None, player2_ball_group = None\<rparr>
                         in (Some frame, db\<lparr>frames := frames db @ [frame],
                                              next_frame_id := Suc (next_frame_id db)\<rparr>)))))"

text \<open>\<open>end_frame\<close>: the frame is looked up by its id alone.\<close>

definition end_frame :: "database \<Rightarrow> nat option \<Rightarrow> nat option \<Rightarrow> frame option \<times> database" where
  "end_frame db frame_id winner_id =
     (case Frame_get db frame_id of
        None \<Rightarrow> (None, db)
      | Some frame \<Rightarrow>
          if truthy_id winner_id then
            (if profile_exists db (the winner_id)
             then (let frame' = frame\<lparr>winner := winner_id\<rparr> in (Some frame', Frame_save db frame'))
             else (None, db))
          else (Some frame, db))"

record updates =
  up_match_date :: "string field"
  up_frames_to_win :: "nat field"

definition update_match :: "database \<Rightarrow> nat \<Rightarrow> updates option \<Rightarrow> match option \<times> database" where
  "update_match db mid updates_opt =
     (case Match_get db mid of
        None \<Rightarrow> (None, db)
      | Some m \<Rightarrow>
          (case updates_opt of
             None \<Rightarrow> (None, db)
           | Some updates \<Rightarrow>
               let m1 = (if has_key (up_match_date updates)
                         then m\<lparr>match_date := dict_get (up_match_date updates)\<rparr> else m)
               in if has_key (up_frames_to_win updates)
                  then (case dict_get (up_frames_to_win updates) of
                          None \<Rightarrow> (None, db)
                        | Some n \<Rightarrow>
                            (let m2 = m1\<lparr>frames_to_win := n\<rparr> in (Some m2, Match_save db m2)))
                  else (Some m1, Match_save db m1)))"

text \<open>The payloads of the replies and broadcasts.\<close>

datatype data =
    Event_data match_event
  | Frame_data frame
  | Match_data match
  | Event_removed "nat option" "nat list"
  | Event_undone nat "nat option" string
  | Events_removed "nat option" "nat list" nat
  | Events_cleared "nat option" "nat list" nat

text \<open>The dictionaries \<open>{'success': True, 'data': ...}\<close> and \<open>{'success': False, 'message': ...}\<close>.\<close>

datatype result = Success data | Failure string

text \<open>\<open>remove_match_event\<close>.\<close>

fun remove_from_frames :: "database \<Rightarrow> frame list \<Rightarrow> nat \<Rightarrow> database" where
  "remove_from_frames db [] eid = db"
| "remove_from_frames db (frame # rest) eid = remove_from_frames (events_remove db (f_id frame) eid) rest eid"

definition remove_match_event :: "database \<Rightarrow> nat \<Rightarrow> nat option \<Rightarrow> result \<times> database" where
  "remove_match_event db mid event_id =
     (case MatchEvent_get db event_id of
        None \<Rightarrow> (Failure ''Event not found'', db)
      | Some event \<Rightarrow>
          let frames_q = filter (\<lambda>f. match_id f = mid \<and> (f_id f, e_id event) \<in> set (frame_events db))
                           (frames db)
          in if frames_q = [] then (Failure ''Event not found in this match'', db)
             else
               let event_data = Event_removed event_id (map f_id frames_q);
                   db1 = remove_from_frames db frames_q (e_id event);
                   db2 = MatchEvent_delete db1 (e_id event)
               in (Success event_data, db2))"

text \<open>\<open>undo_last_event\<close>.\<close>

definition undo_last_event :: "database \<Rightarrow> nat \<Rightarrow> nat option \<Rightarrow> result \<times> database" where
  "undo_last_event db mid frame_id =
     (case Frame_get_in_match db frame_id mid of
        None \<Rightarrow> (Failure ''Frame not found'', db)
      | Some frame \<Rightarrow>
          (case last_event_of db (f_id frame) of
             None \<Rightarrow> (Failure ''No events to undo in this frame'', db)
           | Some last_event \<Rightarrow>
               let event_data = Event_undone (e_id last_event) frame_id (eventType last_event);
                   db1 = events_remove db (f_id frame) (e_id last_event);
                   db2 = MatchEvent_delete db1 (e_id last_event)
               in (Success event_data, db2)))"

text \<open>\<open>remove_events_from_frame\<close>: ids that are no event, or not in the frame, are skipped.\<close>

fun remove_loop :: "database \<Rightarrow> frame \<Rightarrow> nat list \<Rightarrow> nat list \<Rightarrow> nat list \<times> database" where
  "remove_loop db frame removed_events [] = (removed_events, db)"
| "remove_loop db frame removed_events (event_id # rest) =
     (case MatchEvent_get db (Some event_id) of
        None \<Rightarrow> remove_loop db frame removed_events rest
      | Some event \<Rightarrow>
          if (f_id frame, event_id) \<in> set (frame_events db)
          then remove_loop (MatchEvent_delete (events_remove db (f_id frame) (e_id event)) (e_id event))
                 frame (removed_events @ [event_id]) rest
          else remove_loop db frame removed_events rest)"

text \<open>
  The list of ids is None when \<open>event_ids\<close> is null: iterating it raises, and the
  handler's \<open>except Exception\<close> reports the exception's text.
\<close>

definition remove_events_from_frame ::
  "database \<Rightarrow> nat \<Rightarrow> nat option \<Rightarrow> nat list option \<Rightarrow> result \<times> database" where
  "remove_events_from_frame db mid frame_id event_ids_opt =
     (case Frame_get_in_match db frame_id mid of
        None \<Rightarrow> (Failure ''Frame not found'', db)
      | Some frame \<Rightarrow>
          (case event_ids_opt of
             None \<Rightarrow> (Failure (CHR 0x27 # ''NoneType'' @ CHR 0x27 # '' object is not iterable''), db)
           | Some event_ids \<Rightarrow>
               (case remove_loop db frame [] event_ids of
                  (removed_events, db') \<Rightarrow>
                    (Success (Events_removed frame_id removed_events (length removed_events)), db'))))"

text \<open>\<open>clear_frame_events\<close>.\<close>

fun clear_loop :: "database \<Rightarrow> frame \<Rightarrow> match_event list \<Rightarrow> database" where
  "clear_loop db frame [] = db"
| "clear_loop db frame (event # rest) =
     clear_loop (MatchEvent_delete (events_remove db (f_id frame) (e_id event)) (e_id event)) frame rest"

definition clear_frame_events :: "database \<Rightarrow> nat \<Rightarrow> nat option \<Rightarrow> result \<times> database" where
  "clear_frame_events db mid frame_id =
     (case Frame_get_in_match db frame_id mid of
        None \<Rightarrow> (Failure ''Frame not found'', db)
      | Some frame \<Rightarrow>
          let event_ids = map e_id (events_of db (f_id frame));
              db' = clear_loop db frame (events_of db (f_id frame))
          in (Success (Events_cleared frame_id event_ids (length event_ids)), db'))"

text \<open>\<open>set_frame_ball_groups\<close>.\<close>

definition set_frame_ball_groups ::
  "database \<Rightarrow> nat \<Rightarrow> nat option \<Rightarrow> string option \<Rightarrow> string option \<Rightarrow> frame option \<times> database" where
  "set_frame_ball_groups db mid frame_id player1_group player2_group =
     (case Frame_get_in_match db frame_id mid of
        None \<Rightarrow> (None, db)
      | Some frame \<Rightarrow>
          let valid_groups = [BALL_GROUP_FULL, BALL_GROUP_STRIPED];
              frame1 = (if truthy_str player1_group \<and> the player1_group \<in> set valid_groups
                        then frame\<lparr>player1_ball_group := player1_group\<rparr> else frame);
              frame2 = (if truthy_str player2_group \<and> the player2_group \<in> set valid_groups
                        then frame1\<lparr>player2_ball_group := player2_group\<rparr> else frame1)
          in (Some frame2, Frame_save db frame2))"

section \<open>Dispatch of inbound messages (BiroMatchAdminConsumer.receive)\<close>

text \<open>The fields of an inbound JSON object that \<open>receive\<close> reads.\<close>

record command =
  c_action :: "string field"
  c_event_data :: "event_data field"
  c_frame_data :: "frame_data field"
  c_frame_id :: "nat field"
  c_winner_id :: "nat field"
  c_updates :: "updates field"
  c_event_id :: "nat field"
  c_event_ids :: "nat list field"
  c_player1_ball_group :: "string field"
  c_player2_ball_group :: "string field"

text \<open>
  The text frame is not JSON, is JSON but no object (then \<open>data.get\<close> raises
  AttributeError, with the name of the value's Python type in its text), or is an object.
\<close>

datatype inbound = Invalid_json | Not_an_object string | Object command

text \<open>The empty objects that are the defaults of \<open>event_data\<close>, \<open>frame_data\<close>, \<open>updates\<close>.\<close>

definition no_event_data :: event_data where
  "no_event_data = \<lparr>ed_eventType = Absent, ed_details = Absent, ed_turn_number = Absent,
                     ed_player_id = Absent, ed_ball_ids = Absent, ed_frame_id = Absent\<rparr>"

definition no_frame_data :: frame_data where
  "no_frame_data = \<lparr>fd_frame_number = Absent\<rparr>"

definition no_updates :: updates where
  "no_updates = \<lparr>up_match_date = Absent, up_frames_to_win = Absent\<rparr>"

text \<open>
  What the consumer emits: \<open>channel_layer.group_send(group, {'type': t, 'data': d})\<close>, and
  \<open>self.send\<close> of an object with the keys \<open>type\<close>, \<open>success\<close>, \<open>data\<close>, \<open>message\<close>
  (None where the key is not there), which goes to the session that sent the command.
\<close>

datatype group = Match_group nat | Biro_match_group nat

datatype out =
    Group_send group string data
  | Send string "bool option" "data option" "string option"

definition receive :: "database \<Rightarrow> nat \<Rightarrow> nat \<Rightarrow> inbound \<Rightarrow> out list \<times> database" where
  "receive db now mid text_data =
     (case text_data of
        Invalid_json \<Rightarrow> ([Send ''error'' None None (Some ''Invalid JSON'')], db)
      | Not_an_object ty \<Rightarrow>
          ([Send ''error'' None None
              (Some (CHR 0x27 # ty @ CHR 0x27 # '' object has no attribute '' @ CHR 0x27 # ''get'' @ [CHR 0x27]))], db)
      | Object cmd \<Rightarrow>
          let action = dict_get (c_action cmd) in
          if action = Some ''create_event'' then
            (case create_match_event db now (dict_get_default (c_event_data cmd) no_event_data) of
               (Some event, db') \<Rightarrow>
                 ([Group_send (Match_group mid) ''event_created'' (Event_data event),
                   Send ''event_created'' (Some True) (Some (Event_data event)) None], db')
             | (None, db') \<Rightarrow> ([], db'))
          else if action = Some ''start_frame'' then
            (case create_frame db mid (dict_get_default (c_frame_data cmd) no_frame_data) of
               (Some frame, db') \<Rightarrow> ([Group_send (Match_group mid) ''frame_update'' (Frame_data frame)], db')
             | (None, db') \<Rightarrow> ([], db'))
          else if action = Some ''end_frame'' then
            (case end_frame db (dict_get (c_frame_id cmd)) (dict_get (c_winner_id cmd)) of
               (Some frame, db') \<Rightarrow> ([Group_send (Match_group mid) ''frame_update'' (Frame_data frame)], db')
             | (None, db') \<Rightarrow> ([], db'))
          else if action = Some ''update_match'' then
            (case update_match db mid (dict_get_default (c_updates cmd) no_updates) of
               (Some match_data, db') \<Rightarrow>
                 ([Group_send (Match_group mid) ''match_update'' (Match_data match_data)], db')
             | (None, db') \<Rightarrow> ([], db'))
          else if action = Some ''remove_event'' then
            (case remove_match_event db mid (dict_get (c_event_id cmd)) of
               (Success d, db') \<Rightarrow>
                 ([Group_send (Match_group mid) ''event_removed'' d,
                   Send ''event_removed'' (Some True) (Some d) None], db')
             | (Failure msg, db') \<Rightarrow> ([Send ''error'' None None (Some msg)], db'))
          else if action = Some ''undo_last_event'' then
            (case undo_last_event db mid (dict_get (c_frame_id cmd)) of
               (Success d, db') \<Rightarrow>
                 ([Group_send (Match_group mid) ''event_removed'' d,
                   Send ''event_removed'' (Some True) (Some d) (Some ''Last event undone'')], db')
             | (Failure msg, db') \<Rightarrow> ([Send ''error'' None None (Some msg)], db'))
          else if action = Some ''remove_events_from_frame'' then
            (case remove_events_from_frame db mid (dict_get (c_frame_id cmd))
                    (dict_get_default (c_event_ids cmd) []) of
               (Success d, db') \<Rightarrow>
                 ([Group_send (Match_group mid) ''events_removed'' d,
                   Send ''events_removed'' (Some True) (Some d) None], db')
             | (Failure msg, db') \<Rightarrow> ([Send ''error'' None None (Some msg)], db'))
          else if action = Some ''clear_frame_events'' then
            (case clear_frame_events db mid (dict_get (c_frame_id cmd)) of
               (Success d, db') \<Rightarrow>
                 ([Group_send (Match_group mid) ''frame_events_cleared'' d,
                   Send ''frame_events_cleared'' (Some True) (Some d) None], db')
             | (Failure msg, db') \<Rightarrow> ([Send ''error'' None None (Some msg)], db'))
          else if action = Some ''set_ball_groups'' then
            (case set_frame_ball_groups db mid (dict_get (c_frame_id cmd))
                    (dict_get (c_player1_ball_group cmd)) (dict_get (c_player2_ball_group cmd)) of
               (Some frame_data, db') \<Rightarrow>
                 ([Group_send (Match_group mid) ''frame_update'' (Frame_data frame_data),
                   Send ''ball_groups_set'' (Some True) (Some (Frame_data frame_data)) None], db')
             | (None, db') \<Rightarrow> ([Send ''error'' None None (Some ''Failed to set ball groups'')], db'))
          else ([], db))"

text \<open>The messages of an output that go back to the session that sent the command.\<close>

fun is_send :: "out \<Rightarrow> bool" where
  "is_send (Send t s d m) = True"
| "is_send (Group_send g t d) = False"

definition acks :: "out list \<times> database \<Rightarrow> out list" where
  "acks r = filter is_send (fst r)"

section \<open>The scorekeeper's handshake (BiroMatchAdminConsumer.connect, api/utils.py)\<close>

text \<open>\<open>s.split(c)\<close> for a one-character separator.\<close>

fun split_on :: "char \<Rightarrow> string \<Rightarrow> string list" where
  "split_on c [] = [[]]"
| "split_on c (x # xs) =
     (if x = c then [] # split_on c xs
      else (case split_on c xs of [] \<Rightarrow> [[x]] | p # ps \<Rightarrow> (x # p) # ps))"

text \<open>
  The loop over the parameters of the query string: the first one that starts with
  \<open>token=\<close> gives the token, \<open>param.split('=')[1]\<close>.
\<close>

fun find_token :: "string list \<Rightarrow> string option" where
  "find_token [] = None"
| "find_token (param # rest) =
     (if take 6 param = ''token=''
      then (case split_on CHR ''='' param of _ # t # _ \<Rightarrow> Some t | _ \<Rightarrow> None)
      else find_token rest)"

text \<open>
  \<open>get_user_from_token\<close> and \<open>get_profile_from_token\<close>. The JWT library is a parameter:
  \<open>access_token t\<close> is the \<open>user_id\<close> of a token it accepts, None when it raises.
\<close>

definition get_user_from_token :: "database \<Rightarrow> (string \<Rightarrow> nat option) \<Rightarrow> string \<Rightarrow> nat option" where
  "get_user_from_token db access_token token_string =
     (case access_token token_string of
        None \<Rightarrow> None
      | Some user_id \<Rightarrow> if user_id \<in> set (users db) then Some user_id else None)"

definition get_profile_from_token ::
  "database \<Rightarrow> (string \<Rightarrow> nat option) \<Rightarrow> string \<Rightarrow> profile option" where
  "get_profile_from_token db access_token token_string =
     (case get_user_from_token db access_token token_string of
        None \<Rightarrow> None
      | Some u \<Rightarrow> Profile_get_by_user db u)"

text \<open>The error lines \<open>connect\<close> prints on the server, and what a connection attempt ends in.\<close>

datatype log = No_token_provided | Invalid_token_or_profile_not_found | Not_a_biro nat

record connection =
  close_code :: "nat option"
  printed :: "log option"
  session_profile :: "nat option"
  joined :: "group option"
  accepted :: bool
  sent :: "out list"

definition rejected :: "nat \<Rightarrow> log \<Rightarrow> connection" where
  "rejected code line = \<lparr>close_code = Some code, printed = Some line, session_profile = None,
                           joined = None, accepted = False, sent = []\<rparr>"

definition connect :: "database \<Rightarrow> (string \<Rightarrow> nat option) \<Rightarrow> string \<Rightarrow> nat \<Rightarrow> connection" where
  "connect db access_token query_string mid =
     (let token = find_token (split_on CHR ''&'' query_string) in
      if \<not> truthy_str token then rejected 4001 No_token_provided
      else
        (case get_profile_from_token db access_token (the token) of
           None \<Rightarrow> rejected 4003 Invalid_token_or_profile_not_found
         | Some profile \<Rightarrow>
             if \<not> is_biro profile then rejected 4003 (Not_a_biro (p_id profile))
             else
               \<lparr>close_code = None, printed = None, session_profile = Some (p_id profile),
                joined = Some (Biro_match_group mid), accepted = True,
                sent = (case Match_get db mid of
                          None \<Rightarrow> []
                        | Some m \<Rightarrow> [Send ''match_state'' None (Some (Match_data m)) None])\<rparr>))"

section \<open>Example data\<close>

definition ev :: "nat \<Rightarrow> string \<Rightarrow> nat \<Rightarrow> string list option \<Rightarrow> match_event" where
  "ev i ty ts ids = \<lparr>e_id = i, eventType = ty, timestamp = ts, details = Some [],
                     turn_number = None, player = None, ball_ids = ids\<rparr>"

definition fr :: "nat \<Rightarrow> nat \<Rightarrow> nat \<Rightarrow> nat option \<Rightarrow> frame" where
  "fr i m n w = \<lparr>f_id = i, match_id = m, frame_number = n, winner = w,
                 player1_ball_group = None, player2_ball_group = None\<rparr>"

text \<open>
  Match 1 is a best of 5 that profile 2 has won 3-0; its frame 3 holds three events.
  Match 2 is a best of 4 with one frame, no winner yet, holding one event.
  Profile 1 is the scorekeeper (user 10), profile 2 a player with a login (user 11).
\<close>

definition example_db :: database where
  "example_db =
     \<lparr>users = [10, 11],
      profiles = [\<lparr>p_id = 1, user = Some 10, is_biro = True\<rparr>,
                  \<lparr>p_id = 2, user = Some 11, is_biro = False\<rparr>,
                  \<lparr>p_id = 3, user = None, is_biro = False\<rparr>],
      matches = [\<lparr>m_id = 1, player1 = 2, player2 = 3, match_date = None, frames_to_win = 5\<rparr>,
                 \<lparr>m_id = 2, player1 = 2, player2 = 3, match_date = None, frames_to_win = 4\<rparr>],
      frames = [fr 1 1 1 (Some 2), fr 2 1 2 (Some 2), fr 3 1 3 (Some 2), fr 4 2 1 None],
      match_events = [ev 1 BALLS_POTTED 10 (Some [''1'', ''9'']), ev 2 NEXT_PLAYER 20 (Some []),
                      ev 3 FAUL 30 (Some []), ev 4 FRAME_START 40 (Some [])],
      frame_events = [(3, 1), (3, 2), (3, 3), (4, 4)],
      next_event_id = 5,
      next_frame_id = 5\<rparr>"

definition example_access_token :: "string \<Rightarrow> nat option" where
  "example_access_token t =
     (if t = ''biro'' then Some 10 else if t = ''player'' then Some 11 else None)"

definition cmd :: "string \<Rightarrow> command" where
  "cmd a = \<lparr>c_action = Val a, c_event_data = Absent, c_frame_data = Absent, c_frame_id = Absent,
            c_winner_id = Absent, c_updates = Absent, c_event_id = Absent, c_event_ids = Absent,
            c_player1_ball_group = Absent, c_player2_ball_group = Absent\<rparr>"

section \<open>Notions used to state the properties\<close>

text \<open>An event id is attached to some frame of a match (a row of the through table says so).\<close>

definition attached_in_match :: "database \<Rightarrow> nat \<Rightarrow> nat \<Rightarrow> bool" where
  "attached_in_match db mid eid =
     list_ex (\<lambda>f. match_id f = mid \<and> (f_id f, eid) \<in> set (frame_events db)) (frames db)"

text \<open>
  The auto-increment key of the events is ahead of every key in use, in the table and in
  the through table.
\<close>

definition event_keys_fresh :: "database \<Rightarrow> bool" where
  "event_keys_fresh db \<longleftrightarrow>
     list_all (\<lambda>e. e_id e < next_event_id db) (match_events db) \<and>
     list_all (\<lambda>fe. snd fe < next_event_id db) (frame_events db)"

text \<open>What \<open>event.delete()\<close> leaves of the two tables that hold an event.\<close>

definition without_event :: "database \<Rightarrow> nat \<Rightarrow> database" where
  "without_event db eid =
     db\<lparr>match_events := filter (\<lambda>e. e_id e \<noteq> eid) (match_events db),
        frame_events := filter (\<lambda>fe. snd fe \<noteq> eid) (frame_events db)\<rparr>"

section \<open>Turn segmentation\<close>

lemma concat_turns_loop: "concat (turns_loop ts cur es) = concat ts @ cur @ es"
  by (induction es arbitrary: ts cur) auto

lemma runs_ok_snoc: "runs_ok b (ts @ [r]) = (runs_ok b ts \<and> run_ok (b \<and> ts = []) r)"
  by (induction ts arbitrary: b) auto

lemma runs_ok_turns_loop:
  "runs_ok True ts \<Longrightarrow> list_all (\<lambda>e. eventType e \<noteq> NEXT_PLAYER) (tl cur) \<Longrightarrow>
   (ts \<noteq> [] \<Longrightarrow> cur \<noteq> [] \<and> eventType (hd cur) = NEXT_PLAYER) \<Longrightarrow>
   runs_ok True (turns_loop ts cur es)"
proof (induction es arbitrary: ts cur)
  case Nil
  then show ?case by (auto simp: runs_ok_snoc run_ok_def)
next
  case (Cons e es)
  show ?case
  proof (cases "eventType e = NEXT_PLAYER \<and> cur \<noteq> []")
    case True
    have "runs_ok True (ts @ [cur])"
      using Cons.prems True by (auto simp: runs_ok_snoc run_ok_def)
    then have "runs_ok True (turns_loop (ts @ [cur]) [e] es)"
      using True by (intro Cons.IH) auto
    then show ?thesis using True by simp
  next
    case False
    have "runs_ok True (turns_loop ts (cur @ [e]) es)"
    proof (intro Cons.IH)
      show "runs_ok True ts" by (rule Cons.prems)
      show "list_all (\<lambda>e. eventType e \<noteq> NEXT_PLAYER) (tl (cur @ [e]))"
        using Cons.prems(2) False by (cases cur) auto
      show "cur @ [e] \<noteq> [] \<and> eventType (hd (cur @ [e])) = NEXT_PLAYER" if "ts \<noteq> []"
        using Cons.prems(3)[OF that] by (cases cur) auto
    qed
    then show ?thesis using False by auto
  qed
qed

lemma events_as_turns_concat: "concat (events_as_turns es) = es"
  by (simp add: events_as_turns_def concat_turns_loop)

lemma events_as_turns_runs: "runs_ok True (events_as_turns es)"
  unfolding events_as_turns_def by (rule runs_ok_turns_loop) simp_all

text \<open>
  C3. The segments of \<open>return_events_as_turns\<close>, concatenated in order, are the event
  sequence itself. No segment is empty, a \<open>next_player\<close> event occurs only as the head of a
  segment, and every segment but the first starts with one: each \<open>next_player\<close> closes the
  run before it and opens the next. Since nothing is lost, the events after the last
  \<open>next_player\<close> are the last segment. This holds of any sequence, and so of the events of
  a frame in timestamp order.
\<close>

theorem turns_partition_lossless:
  "concat (events_as_turns es) = es
   \<and> runs_ok True (events_as_turns es)
   \<and> concat (return_events_as_turns db fid) = events_by_timestamp db fid
   \<and> runs_ok True (return_events_as_turns db fid)"
  by (simp add: return_events_as_turns_def events_as_turns_concat events_as_turns_runs)

theorem turns_partition_lossless_witness:
  "events_as_turns [ev 1 FAUL 1 None, ev 2 NEXT_PLAYER 2 None, ev 3 BALLS_POTTED 3 (Some [''4'']),
                    ev 4 NEXT_PLAYER 4 None, ev 5 NEXT_PLAYER 5 None, ev 6 FAUL 6 None]
     = [[ev 1 FAUL 1 None], [ev 2 NEXT_PLAYER 2 None, ev 3 BALLS_POTTED 3 (Some [''4''])],
        [ev 4 NEXT_PLAYER 4 None], [ev 5 NEXT_PLAYER 5 None, ev 6 FAUL 6 None]]
   \<and> concat (return_events_as_turns example_db 3) = events_by_timestamp example_db 3
   \<and> return_events_as_turns example_db 3
     = [[ev 1 BALLS_POTTED 10 (Some [''1'', ''9''])], [ev 2 NEXT_PLAYER 20 (Some []), ev 3 FAUL 30 (Some [])]]"
  using turns_partition_lossless [of
      "[ev 1 FAUL 1 None, ev 2 NEXT_PLAYER 2 None, ev 3 BALLS_POTTED 3 (Some [''4'']),
        ev 4 NEXT_PLAYER 4 None, ev 5 NEXT_PLAYER 5 None, ev 6 FAUL 6 None]" example_db 3]
  by (simp add: events_as_turns_def return_events_as_turns_def events_by_timestamp_def
      events_of_def example_db_def ev_def)

section \<open>Balls on the table\<close>

lemma dict_set_keys:
  "map fst (dict_set d k v) = (if k \<in> set (map fst d) then map fst d else map fst d @ [k])"
  by (induction d) (auto simp: rev_image_eqI)

lemma dict_set_keys_distinct: "distinct (map fst d) \<Longrightarrow> distinct (map fst (dict_set d k v))"
  by (simp add: dict_set_keys)

lemma dict_set_False_on:
  "distinct (map fst d) \<Longrightarrow>
   map fst (filter snd (dict_set d k False)) = filter (\<lambda>x. x \<noteq> k) (map fst (filter snd d))"
proof (induction d)
  case Nil
  then show ?case by simp
next
  case (Cons kv d)
  obtain k' v' where kv: "kv = (k', v')" by (cases kv)
  show ?case
  proof (cases "k' = k")
    case True
    then have "k \<notin> set (map fst d)" using Cons.prems kv by auto
    then have "\<forall>x \<in> set (map fst (filter snd d)). x \<noteq> k" by force
    then have "filter (\<lambda>x. x \<noteq> k) (map fst (filter snd d)) = map fst (filter snd d)"
      by (intro filter_True) blast
    then show ?thesis using True kv by simp
  next
    case False
    then show ?thesis using Cons kv by simp
  qed
qed

lemma pot_keys_distinct: "distinct (map fst d) \<Longrightarrow> distinct (map fst (pot d bs))"
  by (induction bs arbitrary: d) (auto simp: dict_set_keys_distinct)

lemma pot_on:
  "distinct (map fst d) \<Longrightarrow>
   map fst (filter snd (pot d bs)) = filter (\<lambda>x. x \<notin> set bs) (map fst (filter snd d))"
  by (induction bs arbitrary: d) (auto simp: dict_set_False_on dict_set_keys_distinct conj_commute)

lemma process_events_on:
  "distinct (map fst d) \<Longrightarrow>
   map fst (filter snd (process_events d es)) =
     filter (\<lambda>x. x \<notin> set (potted_ids es)) (map fst (filter snd d))"
proof (induction es arbitrary: d)
  case Nil
  then show ?case by simp
next
  case (Cons e es)
  show ?case
  proof (cases "eventType e = BALLS_POTTED \<and> truthy_list (ball_ids e)")
    case True
    then obtain ids where ids: "ball_ids e = Some ids" by (cases "ball_ids e") auto
    show ?thesis using True ids Cons.prems
      by (simp add: Cons.IH pot_keys_distinct pot_on conj_commute)
  next
    case False
    then have "potted_ids (e # es) = potted_ids es"
      by (cases "ball_ids e") auto
    then show ?thesis using False Cons by auto
  qed
qed

lemma initial_distinct: "distinct (map fst initial_balls_on_table)"
  by (simp add: initial_balls_on_table_def balls_def)

lemma balls_on_table_of_Nil:
  "balls_on_table_of [] = filter (\<lambda>b. b \<noteq> ''cue'') (map ball_id balls)
   \<and> length (balls_on_table_of []) = 15 \<and> distinct (balls_on_table_of [])"
  by (simp add: balls_on_table_of_def initial_balls_on_table_def balls_def)

lemma balls_on_table_of_eq:
  "balls_on_table_of es = filter (\<lambda>b. b \<notin> set (potted_ids es)) (balls_on_table_of [])"
  by (simp add: balls_on_table_of_def process_events_on initial_distinct)

lemma potted_ids_append: "potted_ids (es @ es') = potted_ids es @ potted_ids es'"
  by (induction es) auto

lemma balls_on_table_of_append:
  "balls_on_table_of (es @ es') = filter (\<lambda>b. b \<notin> set (potted_ids es')) (balls_on_table_of es)"
  by (subst balls_on_table_of_eq, subst (2) balls_on_table_of_eq)
     (auto simp: potted_ids_append intro: filter_cong)

lemma balls_on_table_of_skip:
  "eventType e \<noteq> BALLS_POTTED \<Longrightarrow> potted_ids (es @ e # es') = potted_ids (es @ es')"
  by (simp add: potted_ids_append)

text \<open>
  C4. With no events the balls on the table are the ids of \<open>balls\<close> without the cue
  ball, fifteen distinct ids. After any sequence of events they are those balls without the ball ids named by the
  sequence's \<open>balls_potted\<close> events, in the original order. An event of any other type can
  be taken out of the sequence without changing the result. Appending events never adds a
  ball: the result after more events is the result before, filtered. The frame's own
  projection is this function on the frame's events in timestamp order.
\<close>

theorem balls_on_table_monotone:
  "(balls_on_table_of [] = filter (\<lambda>b. b \<noteq> ''cue'') (map ball_id balls)
    \<and> length (balls_on_table_of []) = 15 \<and> distinct (balls_on_table_of []))
   \<and> balls_on_table_of es = filter (\<lambda>b. b \<notin> set (potted_ids es)) (balls_on_table_of [])
   \<and> (eventType e \<noteq> BALLS_POTTED \<longrightarrow>
        balls_on_table_of (es @ e # es') = balls_on_table_of (es @ es'))
   \<and> balls_on_table_of (es @ es') = filter (\<lambda>b. b \<notin> set (potted_ids es')) (balls_on_table_of es)
   \<and> set (balls_on_table_of (es @ es')) \<subseteq> set (balls_on_table_of es)
   \<and> get_balls_on_table db fid = balls_on_table_of (events_by_timestamp db fid)"
proof (intro conjI impI)
  show "balls_on_table_of [] = filter (\<lambda>b. b \<noteq> ''cue'') (map ball_id balls)"
    by (rule balls_on_table_of_Nil [THEN conjunct1])
  show "length (balls_on_table_of []) = 15"
    by (rule balls_on_table_of_Nil [THEN conjunct2, THEN conjunct1])
  show "distinct (balls_on_table_of [])"
    by (rule balls_on_table_of_Nil [THEN conjunct2, THEN conjunct2])
  show "balls_on_table_of es = filter (\<lambda>b. b \<notin> set (potted_ids es)) (balls_on_table_of [])"
    by (rule balls_on_table_of_eq)
  show "balls_on_table_of (es @ e # es') = balls_on_table_of (es @ es')"
    if "eventType e \<noteq> BALLS_POTTED"
  proof -
    have "balls_on_table_of (es @ e # es') =
          filter (\<lambda>b. b \<notin> set (potted_ids (es @ e # es'))) (balls_on_table_of [])"
      by (rule balls_on_table_of_eq)
    also have "\<dots> = filter (\<lambda>b. b \<notin> set (potted_ids (es @ es'))) (balls_on_table_of [])"
      by (simp only: balls_on_table_of_skip [OF that])
    also have "\<dots> = balls_on_table_of (es @ es')"
      by (rule balls_on_table_of_eq [symmetric])
    finally show ?thesis .
  qed
  show app: "balls_on_table_of (es @ es') =
        filter (\<lambda>b. b \<notin> set (potted_ids es')) (balls_on_table_of es)"
    by (rule balls_on_table_of_append)
  show "set (balls_on_table_of (es @ es')) \<subseteq> set (balls_on_table_of es)"
    unfolding app by (rule filter_is_subset)
  show "get_balls_on_table db fid = balls_on_table_of (events_by_timestamp db fid)"
    by (rule get_balls_on_table_def)
qed

theorem balls_on_table_monotone_witness:
  "eventType (ev 2 NEXT_PLAYER 20 (Some [''5''])) \<noteq> BALLS_POTTED
   \<and> balls_on_table_of [ev 1 BALLS_POTTED 10 (Some [''1'', ''9'']), ev 2 NEXT_PLAYER 20 (Some [''5''])]
       = balls_on_table_of [ev 1 BALLS_POTTED 10 (Some [''1'', ''9''])]
   \<and> get_balls_on_table example_db 3 = filter (\<lambda>b. b \<noteq> ''1'' \<and> b \<noteq> ''9'') (balls_on_table_of [])
   \<and> length (get_balls_on_table example_db 3) = 13"
  using balls_on_table_monotone [of "[ev 1 BALLS_POTTED 10 (Some [''1'', ''9''])]"
      "ev 2 NEXT_PLAYER 20 (Some [''5''])" "[]" example_db 3]
  by (simp add: ev_def get_balls_on_table_def events_by_timestamp_def events_of_def example_db_def
      balls_on_table_of_def initial_balls_on_table_def balls_def)

section \<open>The best-of-N gate of frame creation\<close>

lemma Match_get_id: "Match_get db mid = Some m \<Longrightarrow> m_id m = mid"
  by (auto simp: Match_get_def find_Some_iff)

lemma gate_cases:
  "best_of_n_gate p1 p2 N =
     (if (N + 1) div 2 \<le> p1 \<or> (N + 1) div 2 \<le> p2 then Already_won
      else if even N \<and> N \<le> p1 + p2 then Ended_in_draw else Allow)"
  by (simp add: best_of_n_gate_def Let_def even_iff_mod_2_eq_zero)

text \<open>
  For an even number of frames the draw check never fires on its own: whenever it holds,
  one of the players has already reached \<open>(N + 1) div 2\<close> wins, and the first check denies.
\<close>

lemma draw_implies_won:
  "even N \<Longrightarrow> N \<le> p1 + p2 \<Longrightarrow> (N + 1) div 2 \<le> p1 \<or> (N + 1) div 2 \<le> (p2::nat)"
  by (auto elim!: evenE)

text \<open>
  C1. For a match that exists, with \<open>frames_needed_to_win = (frames_to_win + 1) div 2\<close>
  and the two counts of frames won: the gate takes the win branch whenever a player has
  reached \<open>frames_needed_to_win\<close> (also when the draw condition holds as well), else the draw
  branch when \<open>frames_to_win\<close> is even and the two counts add up to at least
  \<open>frames_to_win\<close>, else it lets the command through. In the first two cases
  \<open>create_frame\<close> returns None and the database is as before; in every other case it
  creates the frame (for a frame number that is absent or a number).
\<close>

theorem frame_gate_best_of_n:
  "Match_get db mid = Some m \<Longrightarrow>
   (let p1 = wins db m (player1 m); p2 = wins db m (player2 m); N = frames_to_win m;
        frames_needed_to_win = (N + 1) div 2;
        won = (p1 \<ge> frames_needed_to_win \<or> p2 \<ge> frames_needed_to_win);
        draw = (even N \<and> p1 + p2 \<ge> N)
    in best_of_n_gate p1 p2 N = (if won then Already_won else if draw then Ended_in_draw else Allow)
     \<and> (won \<or> draw \<longrightarrow> create_frame db mid fd = (None, db))
     \<and> (\<not> won \<and> \<not> draw \<longrightarrow>
          (\<forall>d n. fd = Some d \<and>
                 dict_get_default (fd_frame_number d) (length (match_frames db m) + 1) = Some n \<longrightarrow>
             create_frame db mid fd =
               (Some \<lparr>f_id = next_frame_id db, match_id = mid, frame_number = n, winner = None,
                      player1_ball_group = None, player2_ball_group = None\<rparr>,
                db\<lparr>frames := frames db @
                       [\<lparr>f_id = next_frame_id db, match_id = mid, frame_number = n, winner = None,
                         player1_ball_group = None, player2_ball_group = None\<rparr>],
                   next_frame_id := Suc (next_frame_id db)\<rparr>))))"
  by (frule Match_get_id) (auto simp: Let_def gate_cases create_frame_def)

theorem frame_gate_best_of_n_witness:
  "Match_get example_db 1 = Some \<lparr>m_id = 1, player1 = 2, player2 = 3, match_date = None, frames_to_win = 5\<rparr>
   \<and> wins example_db \<lparr>m_id = 1, player1 = 2, player2 = 3, match_date = None, frames_to_win = 5\<rparr> 2 = 3
   \<and> create_frame example_db 1 (Some no_frame_data) = (None, example_db)
   \<and> Match_get example_db 2 = Some \<lparr>m_id = 2, player1 = 2, player2 = 3, match_date = None, frames_to_win = 4\<rparr>
   \<and> create_frame example_db 2 (Some no_frame_data) =
        (Some (fr 5 2 2 None),
         example_db\<lparr>frames := frames example_db @ [fr 5 2 2 None], next_frame_id := 6\<rparr>)"
  using frame_gate_best_of_n [of example_db 1
      "\<lparr>m_id = 1, player1 = 2, player2 = 3, match_date = None, frames_to_win = 5\<rparr>"
      "Some no_frame_data"]
    frame_gate_best_of_n [of example_db 2
      "\<lparr>m_id = 2, player1 = 2, player2 = 3, match_date = None, frames_to_win = 4\<rparr>"
      "Some no_frame_data"]
  by (simp add: Match_get_def example_db_def wins_def match_frames_def fr_def no_frame_data_def
      Let_def)

section \<open>Removing an event\<close>

lemma MatchEvent_delete_eq: "MatchEvent_delete db eid = without_event db eid"
  by (simp add: MatchEvent_delete_def without_event_def)

lemma remove_from_frames_eq:
  "remove_from_frames db fs eid =
     db\<lparr>frame_events := filter (\<lambda>fe. fe \<notin> (\<lambda>f. (f_id f, eid)) ` set fs) (frame_events db)\<rparr>"
proof (induction fs arbitrary: db)
  case Nil
  then show ?case by simp
next
  case (Cons f fs)
  show ?case
    by (simp add: Cons.IH events_remove_def conj_commute)
qed

lemma remove_then_delete:
  "MatchEvent_delete (remove_from_frames db fs eid) eid = without_event db eid"
proof -
  have "filter (\<lambda>fe. snd fe \<noteq> eid)
          (filter (\<lambda>fe. fe \<notin> (\<lambda>f. (f_id f, eid)) ` set fs) (frame_events db))
        = filter (\<lambda>fe. snd fe \<noteq> eid) (frame_events db)"
    by (auto intro: filter_cong)
  then show ?thesis
    by (simp add: remove_from_frames_eq MatchEvent_delete_def without_event_def)
qed

lemma events_remove_then_delete:
  "MatchEvent_delete (events_remove db fid eid) eid = without_event db eid"
proof -
  have "filter (\<lambda>fe. snd fe \<noteq> eid) (filter (\<lambda>fe. fe \<noteq> (fid, eid)) (frame_events db))
        = filter (\<lambda>fe. snd fe \<noteq> eid) (frame_events db)"
    by (auto intro: filter_cong)
  then show ?thesis
    by (simp add: events_remove_def MatchEvent_delete_def without_event_def)
qed

lemma MatchEvent_get_id: "MatchEvent_get db (Some eid) = Some e \<Longrightarrow> e_id e = eid"
  by (auto simp: MatchEvent_get_def find_Some_iff)

lemma frames_q_empty:
  "(filter (\<lambda>f. match_id f = mid \<and> (f_id f, eid) \<in> set (frame_events db)) (frames db) = [])
     = (\<not> attached_in_match db mid eid)"
  by (auto simp: attached_in_match_def filter_empty_conv list_ex_iff)

lemma remove_match_event_None: "remove_match_event db mid None = (Failure ''Event not found'', db)"
proof -
  have "MatchEvent_get db None = None"
    by (simp add: MatchEvent_get_def find_None_iff)
  then show ?thesis by (simp add: remove_match_event_def)
qed

lemma remove_match_event_missing:
  "MatchEvent_get db (Some eid) = None \<Longrightarrow>
   remove_match_event db mid (Some eid) = (Failure ''Event not found'', db)"
  by (simp add: remove_match_event_def)

lemma remove_match_event_unattached:
  assumes "MatchEvent_get db (Some eid) = Some e" "\<not> attached_in_match db mid eid"
  shows "remove_match_event db mid (Some eid) = (Failure ''Event not found in this match'', db)"
proof -
  have "e_id e = eid" using assms(1) by (rule MatchEvent_get_id)
  then show ?thesis using assms
    by (simp add: remove_match_event_def frames_q_empty)
qed

lemma remove_match_event_attached:
  assumes "MatchEvent_get db (Some eid) = Some e" "attached_in_match db mid eid"
  shows "remove_match_event db mid (Some eid) =
           (Success (Event_removed (Some eid)
              (map f_id (filter (\<lambda>f. match_id f = mid \<and> (f_id f, eid) \<in> set (frame_events db))
                   (frames db)))),
            without_event db eid)"
proof -
  have "e_id e = eid" using assms(1) by (rule MatchEvent_get_id)
  then show ?thesis using assms
    by (simp add: remove_match_event_def frames_q_empty remove_then_delete Let_def)
qed

text \<open>
  C5. \<open>remove_match_event\<close> fails, and returns the database as it was, when the event id
  is absent, resolves to no event (''Event not found''), or resolves to an event that no
  frame of the addressed match holds (''Event not found in this match''). Otherwise it
  succeeds: it reports the event id and the ids of the frames of the match that hold the
  event, and the database it returns has neither the event nor any row of the through table
  for it.
\<close>

theorem remove_event_scoped_to_match:
  "remove_match_event db mid None = (Failure ''Event not found'', db)
   \<and> (MatchEvent_get db (Some eid) = None \<longrightarrow>
        remove_match_event db mid (Some eid) = (Failure ''Event not found'', db))
   \<and> (MatchEvent_get db (Some eid) \<noteq> None \<and> \<not> attached_in_match db mid eid \<longrightarrow>
        remove_match_event db mid (Some eid) = (Failure ''Event not found in this match'', db))
   \<and> (MatchEvent_get db (Some eid) \<noteq> None \<and> attached_in_match db mid eid \<longrightarrow>
        remove_match_event db mid (Some eid) =
          (Success (Event_removed (Some eid)
             (map f_id (filter (\<lambda>f. match_id f = mid \<and> (f_id f, eid) \<in> set (frame_events db))
                  (frames db)))),
           without_event db eid)
        \<and> MatchEvent_get (without_event db eid) (Some eid) = None
        \<and> \<not> attached_in_match (without_event db eid) mid eid
        \<and> (\<forall>fid. (fid, eid) \<notin> set (frame_events (without_event db eid))))"
proof (intro conjI impI allI)
  show "remove_match_event db mid None = (Failure ''Event not found'', db)"
    by (rule remove_match_event_None)
  show "remove_match_event db mid (Some eid) = (Failure ''Event not found'', db)"
    if "MatchEvent_get db (Some eid) = None"
    using that by (rule remove_match_event_missing)
  show "remove_match_event db mid (Some eid) = (Failure ''Event not found in this match'', db)"
    if "MatchEvent_get db (Some eid) \<noteq> None \<and> \<not> attached_in_match db mid eid"
    using that remove_match_event_unattached by blast
  show "remove_match_event db mid (Some eid) =
          (Success (Event_removed (Some eid)
             (map f_id (filter (\<lambda>f. match_id f = mid \<and> (f_id f, eid) \<in> set (frame_events db))
                  (frames db)))),
           without_event db eid)"
    if "MatchEvent_get db (Some eid) \<noteq> None \<and> attached_in_match db mid eid"
    using that remove_match_event_attached by blast
  show "MatchEvent_get (without_event db eid) (Some eid) = None"
    by (simp add: MatchEvent_get_def without_event_def find_None_iff)
  show "\<not> attached_in_match (without_event db eid) mid eid"
    by (simp add: attached_in_match_def without_event_def list_ex_iff)
  show "(fid, eid) \<notin> set (frame_events (without_event db eid))" for fid
    by (simp add: without_event_def)
qed

theorem remove_event_scoped_to_match_witness:
  "MatchEvent_get example_db (Some 4) \<noteq> None \<and> \<not> attached_in_match example_db 1 4
   \<and> remove_match_event example_db 1 (Some 4) = (Failure ''Event not found in this match'', example_db)
   \<and> MatchEvent_get example_db (Some 99) = None
   \<and> remove_match_event example_db 1 (Some 99) = (Failure ''Event not found'', example_db)
   \<and> MatchEvent_get example_db (Some 2) \<noteq> None \<and> attached_in_match example_db 1 2
   \<and> remove_match_event example_db 1 (Some 2) =
        (Success (Event_removed (Some 2) [3]), without_event example_db 2)
   \<and> frame_events (without_event example_db 2) = [(3, 1), (3, 3), (4, 4)]"
  using remove_event_scoped_to_match [of example_db 1 4]
    remove_event_scoped_to_match [of example_db 1 99]
    remove_event_scoped_to_match [of example_db 1 2]
  by (simp add: MatchEvent_get_def attached_in_match_def example_db_def ev_def fr_def
      without_event_def)

section \<open>Undoing the last event\<close>

lemma sort_key_head:
  assumes "sort_key k xs = y # ys"
  shows "y \<in> set xs \<and> (\<forall>x \<in> set xs. k y \<le> k x)"
proof -
  have s: "sorted (map k (y # ys))" using sorted_sort_key [of k xs] assms by simp
  have m: "set (y # ys) = set xs" using set_sort [of k xs] assms by simp
  show ?thesis
  proof
    show "y \<in> set xs" using m by auto
    show "\<forall>x \<in> set xs. k y \<le> k x"
    proof
      fix x assume "x \<in> set xs"
      then have "x = y \<or> x \<in> set ys" using m by auto
      then show "k y \<le> k x" using s by auto
    qed
  qed
qed

lemma last_event_of_None: "(last_event_of db fid = None) = (events_of db fid = [])"
proof -
  have "(sort_key (\<lambda>e. - int (timestamp e)) (events_of db fid) = []) = (events_of db fid = [])"
    by (metis length_sort list.size(3) length_0_conv)
  then show ?thesis
    by (auto simp: last_event_of_def split: list.splits)
qed

lemma last_event_of_Some:
  assumes "last_event_of db fid = Some e"
  shows "e \<in> set (events_of db fid) \<and> (\<forall>e' \<in> set (events_of db fid). timestamp e' \<le> timestamp e)"
proof -
  obtain ys where "sort_key (\<lambda>e. - int (timestamp e)) (events_of db fid) = e # ys"
    using assms by (auto simp: last_event_of_def split: list.splits)
  from sort_key_head [OF this] show ?thesis by auto
qed

lemma Frame_get_in_match_without:
  "Frame_get_in_match (without_event db eid) frame_id mid = Frame_get_in_match db frame_id mid"
  by (simp add: Frame_get_in_match_def without_event_def)

lemma events_of_without:
  "events_of (without_event db eid) fid = filter (\<lambda>e. e_id e \<noteq> eid) (events_of db fid)"
  by (auto simp: events_of_def without_event_def intro: filter_cong)

lemma undo_empty:
  "Frame_get_in_match db frame_id mid = Some frame \<Longrightarrow> events_of db (f_id frame) = [] \<Longrightarrow>
   undo_last_event db mid frame_id = (Failure ''No events to undo in this frame'', db)"
  using last_event_of_None [of db "f_id frame"] by (simp add: undo_last_event_def)

lemma undo_nonempty:
  assumes "Frame_get_in_match db frame_id mid = Some frame" "events_of db (f_id frame) \<noteq> []"
  shows "\<exists>e \<in> set (events_of db (f_id frame)).
           (\<forall>e' \<in> set (events_of db (f_id frame)). timestamp e' \<le> timestamp e) \<and>
           undo_last_event db mid frame_id =
             (Success (Event_undone (e_id e) frame_id (eventType e)), without_event db (e_id e))"
proof -
  obtain e where e: "last_event_of db (f_id frame) = Some e"
    using assms(2) last_event_of_None [of db "f_id frame"] by (cases "last_event_of db (f_id frame)") auto
  have "undo_last_event db mid frame_id =
          (Success (Event_undone (e_id e) frame_id (eventType e)), without_event db (e_id e))"
    using assms(1) e by (simp add: undo_last_event_def events_remove_then_delete Let_def)
  then show ?thesis using last_event_of_Some [OF e] by blast
qed

lemma undo_twice:
  assumes f: "Frame_get_in_match db frame_id mid = Some frame"
    and one: "events_of db (f_id frame) = [e]"
  shows "undo_last_event db mid frame_id =
           (Success (Event_undone (e_id e) frame_id (eventType e)), without_event db (e_id e))
         \<and> undo_last_event (without_event db (e_id e)) mid frame_id =
           (Failure ''No events to undo in this frame'', without_event db (e_id e))"
proof -
  have "events_of db (f_id frame) \<noteq> []" using one by simp
  from undo_nonempty [OF f this] one
  have first: "undo_last_event db mid frame_id =
           (Success (Event_undone (e_id e) frame_id (eventType e)), without_event db (e_id e))"
    by simp
  have "events_of (without_event db (e_id e)) (f_id frame) = []"
    by (simp add: events_of_without one)
  moreover have "Frame_get_in_match (without_event db (e_id e)) frame_id mid = Some frame"
    using f by (simp add: Frame_get_in_match_without)
  ultimately have "undo_last_event (without_event db (e_id e)) mid frame_id =
           (Failure ''No events to undo in this frame'', without_event db (e_id e))"
    by (rule undo_empty [rotated])
  with first show ?thesis by simp
qed

text \<open>
  C6. For a frame of the addressed match: with no events attached, \<open>undo_last_event\<close>
  fails and returns the database as it was. Otherwise it removes one attached event, whose
  timestamp no attached event exceeds, reports that event's id, the frame id and the event's
  type, and the database it returns differs only in that this event and its rows of the
  through table are gone. On a frame with exactly one event the first call removes it and a
  second call on the resulting database fails.
\<close>

theorem undo_last_event_greatest_timestamp:
  "Frame_get_in_match db frame_id mid = Some frame \<Longrightarrow>
   (events_of db (f_id frame) = [] \<longrightarrow>
      undo_last_event db mid frame_id = (Failure ''No events to undo in this frame'', db))
   \<and> (events_of db (f_id frame) \<noteq> [] \<longrightarrow>
        (\<exists>e \<in> set (events_of db (f_id frame)).
           (\<forall>e' \<in> set (events_of db (f_id frame)). timestamp e' \<le> timestamp e) \<and>
           undo_last_event db mid frame_id =
             (Success (Event_undone (e_id e) frame_id (eventType e)), without_event db (e_id e))))
   \<and> (\<forall>e. events_of db (f_id frame) = [e] \<longrightarrow>
        undo_last_event db mid frame_id =
           (Success (Event_undone (e_id e) frame_id (eventType e)), without_event db (e_id e))
        \<and> undo_last_event (without_event db (e_id e)) mid frame_id =
           (Failure ''No events to undo in this frame'', without_event db (e_id e)))"
  using undo_empty undo_nonempty undo_twice by blast

theorem undo_last_event_greatest_timestamp_witness:
  "Frame_get_in_match example_db (Some 3) 1 = Some (fr 3 1 3 (Some 2))
   \<and> undo_last_event example_db 1 (Some 3) =
        (Success (Event_undone 3 (Some 3) FAUL), without_event example_db 3)
   \<and> Frame_get_in_match example_db (Some 4) 2 = Some (fr 4 2 1 None)
   \<and> events_of example_db 4 = [ev 4 FRAME_START 40 (Some [])]
   \<and> undo_last_event example_db 2 (Some 4) =
        (Success (Event_undone 4 (Some 4) FRAME_START), without_event example_db 4)
   \<and> undo_last_event (without_event example_db 4) 2 (Some 4) =
        (Failure ''No events to undo in this frame'', without_event example_db 4)
   \<and> Frame_get_in_match example_db (Some 1) 1 = Some (fr 1 1 1 (Some 2))
   \<and> events_of example_db 1 = []
   \<and> undo_last_event example_db 1 (Some 1) = (Failure ''No events to undo in this frame'', example_db)"
  using undo_last_event_greatest_timestamp [of example_db "Some 3" 1 "fr 3 1 3 (Some 2)"]
    undo_last_event_greatest_timestamp [of example_db "Some 4" 2 "fr 4 2 1 None"]
    undo_last_event_greatest_timestamp [of example_db "Some 1" 1 "fr 1 1 1 (Some 2)"]
  by (simp add: Frame_get_in_match_def events_of_def example_db_def fr_def ev_def
      undo_last_event_def last_event_of_def MatchEvent_delete_def events_remove_def
      without_event_def)

section \<open>Setting the ball groups\<close>

text \<open>
  C8. For a frame of the addressed match, \<open>set_frame_ball_groups\<close> succeeds and returns
  the frame with each ball group replaced by the given value when that value is ''full'' or
  ''striped'', and kept as it was otherwise (value absent, null or anything else). The saved
  row differs from the old one in those two fields at most, and no other table changes.
\<close>

theorem ball_groups_only_valid_values:
  "Frame_get_in_match db frame_id mid = Some frame \<Longrightarrow>
   (let g1 = (if player1_group = Some BALL_GROUP_FULL \<or> player1_group = Some BALL_GROUP_STRIPED
              then player1_group else player1_ball_group frame);
        g2 = (if player2_group = Some BALL_GROUP_FULL \<or> player2_group = Some BALL_GROUP_STRIPED
              then player2_group else player2_ball_group frame);
        frame' = frame\<lparr>player1_ball_group := g1, player2_ball_group := g2\<rparr>
    in set_frame_ball_groups db mid frame_id player1_group player2_group =
         (Some frame', db\<lparr>frames := map (\<lambda>f. if f_id f = f_id frame then frame' else f) (frames db)\<rparr>)
       \<and> f_id frame' = f_id frame \<and> match_id frame' = match_id frame
       \<and> frame_number frame' = frame_number frame \<and> winner frame' = winner frame)"
proof -
  assume f: "Frame_get_in_match db frame_id mid = Some frame"
  have v1: "(truthy_str player1_group \<and> the player1_group \<in> set [BALL_GROUP_FULL, BALL_GROUP_STRIPED])
            = (player1_group = Some BALL_GROUP_FULL \<or> player1_group = Some BALL_GROUP_STRIPED)"
    by (cases player1_group) auto
  have v2: "(truthy_str player2_group \<and> the player2_group \<in> set [BALL_GROUP_FULL, BALL_GROUP_STRIPED])
            = (player2_group = Some BALL_GROUP_FULL \<or> player2_group = Some BALL_GROUP_STRIPED)"
    by (cases player2_group) auto
  show ?thesis
    unfolding set_frame_ball_groups_def Let_def f option.case v1 v2 Frame_save_def
    by simp
qed

theorem ball_groups_only_valid_values_witness:
  "Frame_get_in_match example_db (Some 4) 2 = Some (fr 4 2 1 None)
   \<and> set_frame_ball_groups example_db 2 (Some 4) (Some ''striped'') (Some ''solid'') =
       (Some ((fr 4 2 1 None)\<lparr>player1_ball_group := Some ''striped''\<rparr>),
        example_db\<lparr>frames := [fr 1 1 1 (Some 2), fr 2 1 2 (Some 2), fr 3 1 3 (Some 2),
                                (fr 4 2 1 None)\<lparr>player1_ball_group := Some ''striped''\<rparr>]\<rparr>)"
  using ball_groups_only_valid_values [of example_db "Some 4" 2 "fr 4 2 1 None"
      "Some ''striped''" "Some ''solid''"]
  by (simp add: Frame_get_in_match_def example_db_def fr_def Let_def)

section \<open>Creating an event for a frame that does not exist\<close>

lemma find_append_fresh:
  "list_all (\<lambda>x. \<not> P x) xs \<Longrightarrow> P y \<Longrightarrow> find P (xs @ [y]) = Some y"
  by (induction xs) auto

lemma MatchEvent_create_ok:
  "(case pl of None \<Rightarrow> True | Some pid \<Rightarrow> profile_exists db pid) \<Longrightarrow>
   MatchEvent_create db now (Some t) det turn pl ids =
     Some (\<lparr>e_id = next_event_id db, eventType = t, timestamp = now, details = det,
            turn_number = turn, player = pl, ball_ids = ids\<rparr>,
           db\<lparr>match_events := match_events db @
                  [\<lparr>e_id = next_event_id db, eventType = t, timestamp = now, details = det,
                    turn_number = turn, player = pl, ball_ids = ids\<rparr>],
              next_event_id := Suc (next_event_id db)\<rparr>)"
  by (cases pl) (simp_all add: MatchEvent_create_def Let_def)

lemma fresh_event_get:
  assumes "event_keys_fresh db" "e_id e = next_event_id db"
  shows "MatchEvent_get (db\<lparr>match_events := match_events db @ [e],
                            next_event_id := Suc (next_event_id db)\<rparr>) (Some (e_id e)) = Some e"
proof -
  have "list_all (\<lambda>x. \<not> Some (e_id x) = Some (e_id e)) (match_events db)"
    using assms by (auto simp: event_keys_fresh_def list_all_iff)
  then have "find (\<lambda>x. Some (e_id x) = Some (e_id e)) (match_events db @ [e]) = Some e"
    by (rule find_append_fresh) simp
  then show ?thesis by (simp add: MatchEvent_get_def)
qed

lemma fresh_event_unattached:
  assumes "event_keys_fresh db"
  shows "(f, next_event_id db) \<notin> set (frame_events db)"
  using assms by (force simp: event_keys_fresh_def list_all_iff)

text \<open>
  C9, amended. Take a \<open>create_event\<close> command whose event fields the store accepts (an
  event type is given, the player is absent or a profile) and whose \<open>frame_id\<close> is a non-zero
  id that resolves to no frame, on a database whose event key is ahead of the keys in use.
  Then \<open>create_match_event\<close> returns None and \<open>receive\<close> sends nothing, neither
  broadcast nor reply, yet the database returned holds the new event, which resolves by its
  id and is attached to no frame; the through table is as before.
\<close>

theorem create_event_unknown_frame_keeps_event:
  assumes ty: "dict_get (ed_eventType ed) = Some t"
    and pl: "case dict_get (ed_player_id ed) of None \<Rightarrow> True | Some pid \<Rightarrow> profile_exists db pid"
    and fid: "dict_get (ed_frame_id ed) = Some fid" "fid \<noteq> 0"
    and nofr: "Frame_get db (Some fid) = None"
    and fresh: "event_keys_fresh db"
    and c: "c_action c = Val ''create_event''" "c_event_data c = Val ed"
  shows "(let event = \<lparr>e_id = next_event_id db, eventType = t, timestamp = now,
                       details = dict_get_default (ed_details ed) [],
                       turn_number = dict_get (ed_turn_number ed),
                       player = dict_get (ed_player_id ed),
                       ball_ids = dict_get_default (ed_ball_ids ed) []\<rparr>;
              db' = db\<lparr>match_events := match_events db @ [event],
                       next_event_id := Suc (next_event_id db)\<rparr>
          in create_match_event db now (Some ed) = (None, db')
           \<and> receive db now mid (Object c) = ([], db')
           \<and> MatchEvent_get db' (Some (e_id event)) = Some event
           \<and> frame_events db' = frame_events db
           \<and> (\<forall>f. (f, e_id event) \<notin> set (frame_events db')))"
proof -
  define event where "event = \<lparr>e_id = next_event_id db, eventType = t, timestamp = now,
                       details = dict_get_default (ed_details ed) [],
                       turn_number = dict_get (ed_turn_number ed),
                       player = dict_get (ed_player_id ed),
                       ball_ids = dict_get_default (ed_ball_ids ed) []\<rparr>"
  define db' where "db' = db\<lparr>match_events := match_events db @ [event],
                       next_event_id := Suc (next_event_id db)\<rparr>"
  have cr: "MatchEvent_create db now (dict_get (ed_eventType ed))
              (dict_get_default (ed_details ed) []) (dict_get (ed_turn_number ed))
              (dict_get (ed_player_id ed)) (dict_get_default (ed_ball_ids ed) []) = Some (event, db')"
    unfolding ty event_def db'_def by (rule MatchEvent_create_ok [OF pl])
  have fg: "Frame_get db' (Some fid) = None"
    using nofr by (simp add: Frame_get_def db'_def)
  have a: "create_match_event db now (Some ed) = (None, db')"
    using cr fid fg by (simp add: create_match_event_def)
  have b: "receive db now mid (Object c) = ([], db')"
    using a c by (simp add: receive_def)
  have eid: "e_id event = next_event_id db" by (simp add: event_def)
  have g: "MatchEvent_get db' (Some (e_id event)) = Some event"
    unfolding db'_def using fresh eid by (rule fresh_event_get)
  have h: "frame_events db' = frame_events db" by (simp add: db'_def)
  have i: "(f, e_id event) \<notin> set (frame_events db')" for f
    using fresh_event_unattached [OF fresh] by (simp add: h eid)
  show ?thesis
    using a b g h i unfolding Let_def event_def [symmetric] db'_def [symmetric] by blast
qed

theorem create_event_unknown_frame_keeps_event_witness:
  "dict_get (ed_eventType (no_event_data\<lparr>ed_eventType := Val FAUL, ed_frame_id := Val 99\<rparr>)) = Some FAUL
   \<and> Frame_get example_db (Some 99) = None
   \<and> event_keys_fresh example_db
   \<and> create_match_event example_db 50
        (Some (no_event_data\<lparr>ed_eventType := Val FAUL, ed_frame_id := Val 99\<rparr>)) =
        (None, example_db\<lparr>match_events := match_events example_db @ [ev 5 FAUL 50 (Some [])],
                          next_event_id := 6\<rparr>)
   \<and> receive example_db 50 1
        (Object ((cmd ''create_event'')
           \<lparr>c_event_data := Val (no_event_data\<lparr>ed_eventType := Val FAUL, ed_frame_id := Val 99\<rparr>)\<rparr>)) =
        ([], example_db\<lparr>match_events := match_events example_db @ [ev 5 FAUL 50 (Some [])],
                        next_event_id := 6\<rparr>)"
  using create_event_unknown_frame_keeps_event [of
      "no_event_data\<lparr>ed_eventType := Val FAUL, ed_frame_id := Val 99\<rparr>" FAUL example_db 99
      "(cmd ''create_event'')
           \<lparr>c_event_data := Val (no_event_data\<lparr>ed_eventType := Val FAUL, ed_frame_id := Val 99\<rparr>)\<rparr>"
      50 1]
  by (simp add: no_event_data_def Frame_get_def event_keys_fresh_def example_db_def ev_def fr_def
      cmd_def Let_def)

text \<open>
  C9 as stated fails where \<open>frame_id\<close> is 0: no frame has that id, but the handler takes
  0 for "no frame id given", so the command succeeds and is both broadcast and acknowledged.
  It also fails where the event fields are refused (no event type): then no event is created
  at all, so none remains.
\<close>

theorem create_event_frame_id_zero_counterexample:
  "Frame_get example_db (Some 0) = None
   \<and> receive example_db 50 1
        (Object ((cmd ''create_event'')
           \<lparr>c_event_data := Val (no_event_data\<lparr>ed_eventType := Val FAUL, ed_frame_id := Val 0\<rparr>)\<rparr>)) =
        ([Group_send (Match_group 1) ''event_created'' (Event_data (ev 5 FAUL 50 (Some []))),
          Send ''event_created'' (Some True) (Some (Event_data (ev 5 FAUL 50 (Some [])))) None],
         example_db\<lparr>match_events := match_events example_db @ [ev 5 FAUL 50 (Some [])],
                    next_event_id := 6\<rparr>)
   \<and> Frame_get example_db (Some 99) = None
   \<and> create_match_event example_db 50 (Some (no_event_data\<lparr>ed_frame_id := Val 99\<rparr>)) =
        (None, example_db)"
  by (simp add: Frame_get_def example_db_def fr_def ev_def receive_def cmd_def no_event_data_def
      create_match_event_def MatchEvent_create_def Let_def)

section \<open>Which commands check that the frame belongs to the match\<close>

lemma Frame_get_Some:
  "Frame_get db (Some fid) = Some frame \<Longrightarrow> frame \<in> set (frames db) \<and> f_id frame = fid"
  by (auto simp: Frame_get_def find_Some_iff)

lemma other_match_not_found:
  assumes pk: "distinct (map f_id (frames db))"
    and fr: "Frame_get db (Some fid) = Some frame"
    and other: "match_id frame \<noteq> mid"
  shows "Frame_get_in_match db (Some fid) mid = None"
proof -
  have "f = frame" if "f \<in> set (frames db)" "f_id f = fid" for f
    using pk that Frame_get_Some [OF fr] by (auto simp: distinct_map inj_on_def)
  then show ?thesis using other
    by (auto simp: Frame_get_in_match_def find_None_iff)
qed

lemma Frame_get_after_create:
  "Frame_get (db\<lparr>match_events := es, next_event_id := n\<rparr>) frame_id = Frame_get db frame_id"
  by (simp add: Frame_get_def)

lemma create_event_attaches:
  assumes ty: "dict_get (ed_eventType ed) = Some t"
    and pl: "case dict_get (ed_player_id ed) of None \<Rightarrow> True | Some pid \<Rightarrow> profile_exists db pid"
    and fid: "dict_get (ed_frame_id ed) = Some fid" "fid \<noteq> 0"
    and fr: "Frame_get db (Some fid) = Some frame"
  shows "\<exists>event db'. create_match_event db now (Some ed) = (Some event, db')
           \<and> e_id event = next_event_id db \<and> (fid, e_id event) \<in> set (frame_events db')"
proof -
  define event where "event = \<lparr>e_id = next_event_id db, eventType = t, timestamp = now,
                       details = dict_get_default (ed_details ed) [],
                       turn_number = dict_get (ed_turn_number ed),
                       player = dict_get (ed_player_id ed),
                       ball_ids = dict_get_default (ed_ball_ids ed) []\<rparr>"
  define db1 where "db1 = db\<lparr>match_events := match_events db @ [event],
                       next_event_id := Suc (next_event_id db)\<rparr>"
  have cr: "MatchEvent_create db now (dict_get (ed_eventType ed))
              (dict_get_default (ed_details ed) []) (dict_get (ed_turn_number ed))
              (dict_get (ed_player_id ed)) (dict_get_default (ed_ball_ids ed) []) = Some (event, db1)"
    unfolding ty event_def db1_def by (rule MatchEvent_create_ok [OF pl])
  have fg: "Frame_get db1 (Some fid) = Some frame"
    using fr by (simp add: db1_def Frame_get_after_create)
  have id: "f_id frame = fid" using Frame_get_Some [OF fr] by simp
  have "create_match_event db now (Some ed) = (Some event, events_add db1 fid (e_id event))"
    using cr fid fg id by (simp add: create_match_event_def)
  moreover have "(fid, e_id event) \<in> set (frame_events (events_add db1 fid (e_id event)))"
    by (simp add: events_add_def)
  moreover have "e_id event = next_event_id db" by (simp add: event_def)
  ultimately show ?thesis by blast
qed

lemma end_frame_any_match:
  assumes fr: "Frame_get db (Some fid) = Some frame" and w: "w \<noteq> 0" "profile_exists db w"
  shows "end_frame db (Some fid) (Some w) =
           (Some (frame\<lparr>winner := Some w\<rparr>), Frame_save db (frame\<lparr>winner := Some w\<rparr>))"
  using assms by (simp add: end_frame_def Let_def)

text \<open>
  C10, amended. Let a frame exist (frame ids being unique) that belongs to another match
  than the one the session addresses. Then \<open>undo_last_event\<close>,
  \<open>remove_events_from_frame\<close> and \<open>clear_frame_events\<close> fail with ''Frame not found'',
  \<open>set_frame_ball_groups\<close> fails (it returns None), and each returns the database as it
  was: these four look the frame up by id and match together. \<open>create_match_event\<close> and
  \<open>end_frame\<close> look it up by id alone: the first attaches the new event to that frame,
  the second sets its winner.
\<close>

theorem frame_lookup_scoped_except_create_and_end:
  assumes pk: "distinct (map f_id (frames db))"
    and fr: "Frame_get db (Some fid) = Some frame"
    and other: "match_id frame \<noteq> mid"
  shows "undo_last_event db mid (Some fid) = (Failure ''Frame not found'', db)
       \<and> remove_events_from_frame db mid (Some fid) event_ids = (Failure ''Frame not found'', db)
       \<and> clear_frame_events db mid (Some fid) = (Failure ''Frame not found'', db)
       \<and> set_frame_ball_groups db mid (Some fid) g1 g2 = (None, db)
       \<and> (dict_get (ed_eventType ed) = Some t
            \<and> (case dict_get (ed_player_id ed) of None \<Rightarrow> True | Some pid \<Rightarrow> profile_exists db pid)
            \<and> dict_get (ed_frame_id ed) = Some fid \<and> fid \<noteq> 0 \<longrightarrow>
            (\<exists>event db'. create_match_event db now (Some ed) = (Some event, db')
               \<and> e_id event = next_event_id db \<and> (fid, e_id event) \<in> set (frame_events db')))
       \<and> (w \<noteq> 0 \<and> profile_exists db w \<longrightarrow>
            end_frame db (Some fid) (Some w) =
              (Some (frame\<lparr>winner := Some w\<rparr>), Frame_save db (frame\<lparr>winner := Some w\<rparr>)))"
proof -
  have nf: "Frame_get_in_match db (Some fid) mid = None"
    using pk fr other by (rule other_match_not_found)
  have a: "undo_last_event db mid (Some fid) = (Failure ''Frame not found'', db)"
    using nf by (simp add: undo_last_event_def)
  have b: "remove_events_from_frame db mid (Some fid) event_ids = (Failure ''Frame not found'', db)"
    using nf by (simp add: remove_events_from_frame_def)
  have c: "clear_frame_events db mid (Some fid) = (Failure ''Frame not found'', db)"
    using nf by (simp add: clear_frame_events_def)
  have d: "set_frame_ball_groups db mid (Some fid) g1 g2 = (None, db)"
    using nf by (simp add: set_frame_ball_groups_def)
  show ?thesis
    using a b c d create_event_attaches [OF _ _ _ _ fr] end_frame_any_match [OF fr]
    by blast
qed

theorem frame_lookup_scoped_except_create_and_end_witness:
  "distinct (map f_id (frames example_db))
   \<and> Frame_get example_db (Some 4) = Some (fr 4 2 1 None) \<and> match_id (fr 4 2 1 None) \<noteq> 1
   \<and> undo_last_event example_db 1 (Some 4) = (Failure ''Frame not found'', example_db)
   \<and> clear_frame_events example_db 1 (Some 4) = (Failure ''Frame not found'', example_db)
   \<and> set_frame_ball_groups example_db 1 (Some 4) (Some ''full'') None = (None, example_db)
   \<and> create_match_event example_db 50
        (Some (no_event_data\<lparr>ed_eventType := Val FAUL, ed_frame_id := Val 4\<rparr>)) =
        (Some (ev 5 FAUL 50 (Some [])),
         example_db\<lparr>match_events := match_events example_db @ [ev 5 FAUL 50 (Some [])],
                    frame_events := frame_events example_db @ [(4, 5)],
                    next_event_id := 6\<rparr>)
   \<and> profile_exists example_db 3
   \<and> end_frame example_db (Some 4) (Some 3) =
        (Some (fr 4 2 1 (Some 3)), Frame_save example_db (fr 4 2 1 (Some 3)))"
  using frame_lookup_scoped_except_create_and_end [where db = example_db and fid = 4
      and frame = "fr 4 2 1 None" and mid = 1 and ?g1.0 = "Some ''full''" and ?g2.0 = None
      and w = 3 and ed = "no_event_data\<lparr>ed_eventType := Val FAUL, ed_frame_id := Val 4\<rparr>"
      and t = FAUL and now = 50 and event_ids = "Some []"]
  by (simp add: example_db_def fr_def ev_def Frame_get_def profile_exists_def no_event_data_def
      create_match_event_def MatchEvent_create_def events_add_def Let_def)

text \<open>
  C10 as stated fails for \<open>end_frame\<close>, a frame-addressed mutation that is not
  \<open>create_event\<close>: sent on the session of match 1 for frame 4 of match 2, it sets that
  frame's winner and broadcasts the frame to the room of match 1.
\<close>

theorem end_frame_other_match_counterexample:
  "Frame_get example_db (Some 4) = Some (fr 4 2 1 None) \<and> match_id (fr 4 2 1 None) = 2
   \<and> receive example_db 50 1
        (Object ((cmd ''end_frame'')\<lparr>c_frame_id := Val 4, c_winner_id := Val 3\<rparr>)) =
        ([Group_send (Match_group 1) ''frame_update'' (Frame_data (fr 4 2 1 (Some 3)))],
         example_db\<lparr>frames := [fr 1 1 1 (Some 2), fr 2 1 2 (Some 2), fr 3 1 3 (Some 2),
                                fr 4 2 1 (Some 3)]\<rparr>)"
  by (simp add: example_db_def fr_def Frame_get_def receive_def cmd_def end_frame_def
      profile_exists_def Frame_save_def Let_def)

section \<open>The handshake\<close>

lemma connect_no_token:
  "\<not> truthy_str (find_token (split_on CHR ''&'' qs)) \<Longrightarrow>
   connect db acc qs mid = rejected 4001 No_token_provided"
  by (simp add: connect_def Let_def)

lemma connect_invalid:
  "truthy_str (find_token (split_on CHR ''&'' qs)) \<Longrightarrow>
   get_profile_from_token db acc (the (find_token (split_on CHR ''&'' qs))) = None \<Longrightarrow>
   connect db acc qs mid = rejected 4003 Invalid_token_or_profile_not_found"
  by (simp add: connect_def Let_def)

lemma connect_not_biro:
  "truthy_str (find_token (split_on CHR ''&'' qs)) \<Longrightarrow>
   get_profile_from_token db acc (the (find_token (split_on CHR ''&'' qs))) = Some p \<Longrightarrow>
   \<not> is_biro p \<Longrightarrow>
   connect db acc qs mid = rejected 4003 (Not_a_biro (p_id p))"
  by (simp add: connect_def Let_def)

lemma connect_biro:
  "truthy_str (find_token (split_on CHR ''&'' qs)) \<Longrightarrow>
   get_profile_from_token db acc (the (find_token (split_on CHR ''&'' qs))) = Some p \<Longrightarrow>
   is_biro p \<Longrightarrow>
   close_code (connect db acc qs mid) = None \<and> accepted (connect db acc qs mid)
   \<and> joined (connect db acc qs mid) = Some (Biro_match_group mid)
   \<and> session_profile (connect db acc qs mid) = Some (p_id p)"
  by (simp add: connect_def Let_def)

lemma connect_joined_iff:
  "(joined (connect db acc qs mid) \<noteq> None) = accepted (connect db acc qs mid)
   \<and> (close_code (connect db acc qs mid) = None) = accepted (connect db acc qs mid)"
  by (simp add: connect_def Let_def rejected_def split: option.splits)

text \<open>
  C7, amended. A connection attempt without a token in the query string (or with an empty
  one) is closed with code 4001. One whose token resolves to no profile, and one whose
  profile is not a biro, are both closed with code 4003; only the line printed on the server
  tells the two apart. A rejected attempt joins no group, is not accepted and is sent
  nothing. Only an attempt that passes the three checks is accepted, and it joins the
  scorekeeper group of the match.
\<close>

theorem connect_rejections:
  "(let token = find_token (split_on CHR ''&'' qs);
        profile = get_profile_from_token db acc (the token);
        c = connect db acc qs mid
    in (\<not> truthy_str token \<longrightarrow> c = rejected 4001 No_token_provided)
     \<and> (truthy_str token \<and> profile = None \<longrightarrow> c = rejected 4003 Invalid_token_or_profile_not_found)
     \<and> (\<forall>p. truthy_str token \<and> profile = Some p \<and> \<not> is_biro p \<longrightarrow>
              c = rejected 4003 (Not_a_biro (p_id p)))
     \<and> (\<forall>p. truthy_str token \<and> profile = Some p \<and> is_biro p \<longrightarrow>
              close_code c = None \<and> accepted c \<and> joined c = Some (Biro_match_group mid)
              \<and> session_profile c = Some (p_id p))
     \<and> (joined c \<noteq> None) = accepted c
     \<and> (close_code c = None) = accepted c)
   \<and> close_code (rejected code line) = Some code \<and> printed (rejected code line) = Some line
   \<and> \<not> accepted (rejected code line) \<and> joined (rejected code line) = None
   \<and> sent (rejected code line) = []"
  unfolding Let_def
  using connect_no_token [of qs db acc mid] connect_invalid [of qs db acc mid]
    connect_not_biro [of qs db acc _ mid] connect_biro [of qs db acc _ mid]
    connect_joined_iff [of db acc qs mid]
  by (simp add: rejected_def)

lemma example_tokens:
  "find_token (split_on CHR ''&'' ''room=7'') = None"
  "find_token (split_on CHR ''&'' ''token='') = Some []"
  "find_token (split_on CHR ''&'' ''token=forged'') = Some ''forged''"
  "find_token (split_on CHR ''&'' ''room=7&token=player'') = Some ''player''"
  "find_token (split_on CHR ''&'' ''token=biro'') = Some ''biro''"
  by simp_all

lemma example_profiles:
  "get_profile_from_token example_db example_access_token ''forged'' = None"
  "get_profile_from_token example_db example_access_token ''player'' =
     Some \<lparr>p_id = 2, user = Some 11, is_biro = False\<rparr>"
  "get_profile_from_token example_db example_access_token ''biro'' =
     Some \<lparr>p_id = 1, user = Some 10, is_biro = True\<rparr>"
  by (simp_all add: get_profile_from_token_def get_user_from_token_def example_access_token_def
      example_db_def Profile_get_by_user_def)

theorem connect_rejections_witness:
  "connect example_db example_access_token ''room=7'' 1 = rejected 4001 No_token_provided
   \<and> connect example_db example_access_token ''token=forged'' 1 =
       rejected 4003 Invalid_token_or_profile_not_found
   \<and> connect example_db example_access_token ''room=7&token=player'' 1 =
       rejected 4003 (Not_a_biro 2)
   \<and> accepted (connect example_db example_access_token ''token=biro'' 1)
   \<and> joined (connect example_db example_access_token ''token=biro'' 1) = Some (Biro_match_group 1)"
  using connect_rejections [of "''room=7''" example_db example_access_token 1]
    connect_rejections [of "''token=forged''" example_db example_access_token 1]
    connect_rejections [of "''room=7&token=player''" example_db example_access_token 1]
    connect_rejections [of "''token=biro''" example_db example_access_token 1]
  by (simp add: Let_def example_tokens example_profiles)

text \<open>
  C7 as stated fails: the rejection that reaches the client is the close code, and a forged
  token and a valid token of a profile without the biro permission get the same one.
\<close>

theorem connect_shared_close_code_counterexample:
  "close_code (connect example_db example_access_token ''token=forged'' 1) = Some 4003
   \<and> close_code (connect example_db example_access_token ''token=player'' 1) = Some 4003
   \<and> get_profile_from_token example_db example_access_token ''forged'' = None
   \<and> get_profile_from_token example_db example_access_token ''player'' =
       Some \<lparr>p_id = 2, user = Some 11, is_biro = False\<rparr>"
  by (simp add: connect_def Let_def rejected_def get_profile_from_token_def
      get_user_from_token_def example_access_token_def example_db_def Profile_get_by_user_def)

section \<open>Acknowledgements\<close>

lemma example_start_frame_denied:
  "create_frame example_db 1 (Some no_frame_data) = (None, example_db)"
  by (simp add: create_frame_def Match_get_def example_db_def wins_def match_frames_def
      best_of_n_gate_def fr_def Let_def)

lemma example_start_frame_allowed:
  "create_frame example_db 2 (Some no_frame_data) =
     (Some (fr 5 2 2 None),
      example_db\<lparr>frames := frames example_db @ [fr 5 2 2 None], next_frame_id := 6\<rparr>)"
  by (simp add: create_frame_def Match_get_def example_db_def wins_def match_frames_def
      best_of_n_gate_def fr_def no_frame_data_def Let_def)

lemma receive_start_frame:
  "receive db now mid (Object (cmd ''start_frame'')) =
     (case create_frame db mid (Some no_frame_data) of
        (Some frame, db') \<Rightarrow> ([Group_send (Match_group mid) ''frame_update'' (Frame_data frame)], db')
      | (None, db') \<Rightarrow> ([], db'))"
  by (simp add: receive_def cmd_def)

lemma receive_unknown:
  "receive db now mid (Object (cmd ''pause_match'')) = ([], db)"
  by (simp add: receive_def cmd_def)

lemma unknown_action_silent:
  assumes "dict_get (c_action c) \<noteq> Some ''create_event''" "dict_get (c_action c) \<noteq> Some ''start_frame''"
    "dict_get (c_action c) \<noteq> Some ''end_frame''" "dict_get (c_action c) \<noteq> Some ''update_match''"
    "dict_get (c_action c) \<noteq> Some ''remove_event''" "dict_get (c_action c) \<noteq> Some ''undo_last_event''"
    "dict_get (c_action c) \<noteq> Some ''remove_events_from_frame''"
    "dict_get (c_action c) \<noteq> Some ''clear_frame_events''"
    "dict_get (c_action c) \<noteq> Some ''set_ball_groups''"
  shows "receive db now mid (Object c) = ([], db)"
  unfolding receive_def Let_def inbound.case
  by (simp only: assms if_False)

lemma start_frame_never_acknowledged:
  assumes "c_action c = Val ''start_frame''"
  shows "acks (receive db now mid (Object c)) = []"
proof -
  obtain r db' where cf: "create_frame db mid (dict_get_default (c_frame_data c) no_frame_data) = (r, db')"
    by (cases "create_frame db mid (dict_get_default (c_frame_data c) no_frame_data)")
  have "receive db now mid (Object c) =
          (case r of Some frame \<Rightarrow> ([Group_send (Match_group mid) ''frame_update'' (Frame_data frame)], db')
           | None \<Rightarrow> ([], db'))"
    using assms cf by (simp add: receive_def split: option.splits)
  then show ?thesis by (cases r) (simp_all add: acks_def)
qed

text \<open>
  C2. The claim asks for one acknowledgement to the sender for every command. \<open>receive\<close>
  does not give one here: on the session of match 1, which is decided, \<open>start_frame\<close> is
  denied by the gate and nothing at all is sent; on the session of match 2 it succeeds and
  only the broadcast goes out; an action that \<open>receive\<close> does not know is dropped without
  a reply. The lemmas before show the same for every database.
\<close>

theorem start_frame_denied_unacknowledged:
  "create_frame example_db 1 (Some no_frame_data) = (None, example_db)
   \<and> receive example_db 50 1 (Object (cmd ''start_frame'')) = ([], example_db)
   \<and> acks (receive example_db 50 1 (Object (cmd ''start_frame''))) = []
   \<and> receive example_db 50 2 (Object (cmd ''start_frame'')) =
        ([Group_send (Match_group 2) ''frame_update'' (Frame_data (fr 5 2 2 None))],
         example_db\<lparr>frames := frames example_db @ [fr 5 2 2 None], next_frame_id := 6\<rparr>)
   \<and> acks (receive example_db 50 2 (Object (cmd ''start_frame''))) = []
   \<and> receive example_db 50 1 (Object (cmd ''pause_match'')) = ([], example_db)"
proof -
  have a: "receive example_db 50 1 (Object (cmd ''start_frame'')) = ([], example_db)"
    by (simp only: receive_start_frame example_start_frame_denied prod.case option.case)
  have b: "receive example_db 50 2 (Object (cmd ''start_frame'')) =
        ([Group_send (Match_group 2) ''frame_update'' (Frame_data (fr 5 2 2 None))],
         example_db\<lparr>frames := frames example_db @ [fr 5 2 2 None], next_frame_id := 6\<rparr>)"
    by (simp only: receive_start_frame example_start_frame_allowed prod.case option.case)
  have c: "acks (receive example_db 50 1 (Object (cmd ''start_frame''))) = []"
    unfolding a by (simp add: acks_def)
  have d: "acks (receive example_db 50 2 (Object (cmd ''start_frame''))) = []"
    unfolding b by (simp add: acks_def)
  show ?thesis
    using a b c d example_start_frame_denied receive_unknown [of example_db 50 1] by blast
qed

end
